theory Spec2Isabelle
  imports Main
begin

section \<open>JavaScript values read by the handlers\<close>

text \<open>
  The handlers read string-valued fields of parsed JSON objects and of the process
  environment. A field is absent (\<open>undefined\<close>), \<open>null\<close>, or a string. The three are
  kept apart because the code tells them apart: \<open>a || b\<close> and \<open>!a\<close> test truthiness,
  \<open>a === 'lit'\<close> tests strict equality, and a key whose value is \<open>undefined\<close> is
  dropped when an object is serialised for the datastore.
\<close>

datatype jsval = Undefined | Null | Str string

fun truthy :: "jsval \<Rightarrow> bool" where
  "truthy (Str s) = (s \<noteq> [])"
| "truthy Undefined = False"
| "truthy Null = False"

definition js_or :: "jsval \<Rightarrow> jsval \<Rightarrow> jsval" where
  "js_or a b = (if truthy a then a else b)"

fun strict_eq :: "jsval \<Rightarrow> string \<Rightarrow> bool" where
  "strict_eq (Str s) lit = (s = lit)"
| "strict_eq Undefined lit = False"
| "strict_eq Null lit = False"

fun template :: "jsval \<Rightarrow> string" where
  "template (Str s) = s"
| "template Undefined = ''undefined''"
| "template Null = ''null''"

text \<open>\<open>String.prototype.toUpperCase\<close> on the ASCII letters (currency codes are ASCII).\<close>

definition upper_char :: "char \<Rightarrow> char" where
  "upper_char c =
     (let n = (of_char c :: nat) in if 97 \<le> n \<and> n \<le> 122 then char_of (n - 32) else c)"

definition toUpperCase :: "string \<Rightarrow> string" where
  "toUpperCase s = map upper_char s"

datatype js_error = TypeError string | DatastoreError string

fun message :: "js_error \<Rightarrow> string" where
  "message (TypeError m) = m"
| "message (DatastoreError m) = m"

section \<open>JSON values of a request body\<close>

text \<open>
  A field destructured from a request body that \<open>express.json()\<close> parsed: absent
  (\<open>undefined\<close>) or any JSON value. A number is kept as the string that
  \<open>Number.prototype.toString\<close> renders it with, zero as "0": the routes test a field for
  truthiness, compare it with a string literal and use it as a property key, and otherwise
  pass it on.
\<close>

datatype json =
    JUndefined
  | JNull
  | JBool bool
  | JNum string
  | JStr string
  | JArr "json list"
  | JObj "(string \<times> json) list"

fun truthy_json :: "json \<Rightarrow> bool" where
  "truthy_json JUndefined = False"
| "truthy_json JNull = False"
| "truthy_json (JBool b) = b"
| "truthy_json (JNum n) = (n \<noteq> ''0'')"
| "truthy_json (JStr s) = (s \<noteq> [])"
| "truthy_json (JArr xs) = True"
| "truthy_json (JObj kvs) = True"

fun strict_eq_json :: "json \<Rightarrow> string \<Rightarrow> bool" where
  "strict_eq_json (JStr s) lit = (s = lit)"
| "strict_eq_json JUndefined lit = False"
| "strict_eq_json JNull lit = False"
| "strict_eq_json (JBool b) lit = False"
| "strict_eq_json (JNum n) lit = False"
| "strict_eq_json (JArr xs) lit = False"
| "strict_eq_json (JObj kvs) lit = False"

text \<open>\<open>Array.prototype.join\<close> with the separator ",".\<close>

fun join_comma :: "string list \<Rightarrow> string" where
  "join_comma [] = []"
| "join_comma [x] = x"
| "join_comma (x # y # ys) = x @ '','' @ join_comma (y # ys)"

text \<open>
  \<open>obj[v]\<close> turns \<open>v\<close> into a property key, the string of \<open>v\<close>. An array is the join
  of its elements' strings, \<open>null\<close> and \<open>undefined\<close> elements counting as empty. A parsed
  object is "[object Object]", unless it has a key "toString" of its own: that value hides
  \<open>Object.prototype.toString\<close> and is no function, \<open>valueOf\<close> yields no primitive, and
  the conversion throws a TypeError (\<open>None\<close>).
\<close>

fun to_property_key :: "json \<Rightarrow> string option" where
  "to_property_key JUndefined = Some ''undefined''"
| "to_property_key JNull = Some ''null''"
| "to_property_key (JBool b) = Some (if b then ''true'' else ''false'')"
| "to_property_key (JNum n) = Some n"
| "to_property_key (JStr s) = Some s"
| "to_property_key (JArr xs) =
     map_option join_comma
       (those (map (\<lambda>x. if x = JNull \<or> x = JUndefined then Some [] else to_property_key x) xs))"
| "to_property_key (JObj kvs) =
     (if ''toString'' \<in> fst ` set kvs then None else Some ''[object Object]'')"

section \<open>Time\<close>

text \<open>
  A \<open>Date\<close> is its time value, the instant in milliseconds since the epoch;
  \<open>toISOString\<close> renders that instant one-to-one, so the columns hold the instant.
  \<open>Date.prototype.setDate\<close> works on the host's local time: it moves the time value to
  local time, \<open>LocalTime(t) = t + LocalTZA(t, true)\<close>, sets the day of the month, and
  moves back, \<open>UTC(t) = t - LocalTZA(t, false)\<close>. \<open>LocalTZA\<close> is the offset of the host's
  time zone in milliseconds, at a UTC instant when the flag is true and at a local time when
  it is false. The host's time zone is no part of the repository: it is read from the
  environment of the request.
\<close>

type_synonym timestamp = int

type_synonym local_tza = "timestamp \<Rightarrow> bool \<Rightarrow> int"

text \<open>
  \<open>d.setDate(d.getDate() + n)\<close>: the local day number moves by \<open>n\<close> and the time within
  the day is kept, so the local time moves by \<open>n\<close> days of 86400000 ms.
\<close>

definition setDate_plus :: "local_tza \<Rightarrow> int \<Rightarrow> timestamp \<Rightarrow> timestamp" where
  "setDate_plus tza n t =
     (let local = t + tza t True;
          newDate = local + n * 86400000
      in newDate - tza newDate False)"

section \<open>The datastore\<close>

text \<open>A row of the \<open>profiles\<close> table, restricted to the columns the handlers touch.\<close>

record profile =
  profile_id :: string
  subscription_tier :: "string option"
  subscription_status :: "string option"
  stripe_customer_id :: "string option"
  stripe_subscription_id :: "string option"
  subscription_start_date :: "timestamp option"
  trial_end_date :: "timestamp option"
  subscription_end_date :: "timestamp option"
  last_payment_date :: "timestamp option"

text \<open>
  A numeric field of an event: absent, \<open>null\<close>, or an integer (the processor counts money
  in minor units).
\<close>

datatype number_field = No_number | Null_number | Number int

text \<open>
  \<open>x / d\<close> on a numeric field is a division of doubles (with \<open>null\<close> as 0, and NaN for an
  absent field). Floating point is not evaluated here: the quotient is kept as the
  expression, dividend and divisor.
\<close>

datatype js_quotient = Divide number_field int

text \<open>A row of the \<open>payment_history\<close> table.\<close>

record payment =
  user_id :: "string option"
  stripe_payment_id :: "string option"
  amount :: js_quotient
  currency_code :: string
  payment_type :: string
  payment_status :: string

datatype datastore_call = Update_profiles | Insert_payment_history

datatype log_line =
    Console_log string
  | Console_error string string
  | Console_error_object string js_error

text \<open>
  The argument of \<open>stripe.checkout.sessions.create\<close>: one line item with its price, the
  mode, the redirect targets, the trial (\<open>subscription_data\<close>, absent as \<open>None\<close>) and the
  metadata. The metadata of a webhook event's session holds strings; the metadata sent
  with a session request holds the request's fields as they came. A price read off the
  plan table is a string or \<open>undefined\<close>, or a member inherited from \<open>Object.prototype\<close>,
  kept by its name.
\<close>

record trial_data =
  trial_period_days :: nat

record metadata =
  meta_userId :: jsval
  meta_plan :: jsval

record checkout_metadata =
  cm_userId :: json
  cm_plan :: json

datatype price_value = Price jsval | Inherited string

record session_config =
  customer_email :: json
  cfg_client_reference_id :: json
  line_item_price :: price_value
  line_item_quantity :: nat
  cfg_mode :: string
  success_url :: string
  cancel_url :: string
  subscription_data :: "trial_data option"
  cfg_metadata :: checkout_metadata

text \<open>
  What a request can change: the two tables, the calls issued to the datastore client and
  to the payment processor (what a test double would record), and the console. The tables
  are lists of rows; the repository declares no uniqueness constraint on either.
\<close>

record world =
  profiles :: "profile list"
  payment_history :: "payment list"
  datastore_calls :: "datastore_call list"
  processor_calls :: "session_config list"
  console :: "log_line list"

text \<open>
  What a request reads from outside: the readings of \<open>new Date()\<close> (the checkout handler
  reads the clock a second time for the trial end), the host's time zone, and whether the datastore client
  throws on an update or on an insert (\<open>Some m\<close>: it throws an error with message \<open>m\<close>).
  A call that throws has changed no row.
\<close>

record env =
  date_first :: timestamp
  date_second :: timestamp
  LocalTZA :: local_tza
  update_throws :: "string option"
  insert_throws :: "string option"

text \<open>
  Serialising an update drops the keys whose value is \<open>undefined\<close> (the column keeps its
  value), writes NULL for \<open>null\<close> and the text for a string.
\<close>

fun set_col :: "jsval \<Rightarrow> string option \<Rightarrow> string option" where
  "set_col Undefined old = old"
| "set_col Null old = None"
| "set_col (Str s) old = Some s"

text \<open>An inserted row has NULL where the key was \<open>undefined\<close> or \<open>null\<close>.\<close>

definition to_col :: "jsval \<Rightarrow> string option" where
  "to_col v = set_col v None"

text \<open>
  \<open>.eq(column, value)\<close> selects the rows whose column holds exactly that text; a NULL
  column, or a filter value that is no string, selects nothing.
\<close>

fun eq_filter :: "string option \<Rightarrow> jsval \<Rightarrow> bool" where
  "eq_filter (Some s) (Str v) = (s = v)"
| "eq_filter None v = False"
| "eq_filter (Some s) Undefined = False"
| "eq_filter (Some s) Null = False"

definition update_eq ::
  "(profile \<Rightarrow> string option) \<Rightarrow> jsval \<Rightarrow> (profile \<Rightarrow> profile) \<Rightarrow> profile list \<Rightarrow> profile list" where
  "update_eq col v f rows = map (\<lambda>r. if eq_filter (col r) v then f r else r) rows"

text \<open>\<open>await supabase.from('profiles').update(data).eq(col, v)\<close>\<close>

definition supabase_update_profiles ::
  "env \<Rightarrow> (profile \<Rightarrow> string option) \<Rightarrow> jsval \<Rightarrow> (profile \<Rightarrow> profile) \<Rightarrow> world
     \<Rightarrow> js_error \<times> world + world" where
  "supabase_update_profiles e col v f w =
     (let w1 = w\<lparr>datastore_calls := datastore_calls w @ [Update_profiles]\<rparr> in
      case update_throws e of
        Some m \<Rightarrow> Inl (DatastoreError m, w1)
      | None \<Rightarrow> Inr (w1\<lparr>profiles := update_eq col v f (profiles w1)\<rparr>))"

text \<open>\<open>await supabase.from('payment_history').insert(row)\<close>: the row is appended.\<close>

definition supabase_insert_payment :: "env \<Rightarrow> payment \<Rightarrow> world \<Rightarrow> js_error \<times> world + world" where
  "supabase_insert_payment e row w =
     (let w1 = w\<lparr>datastore_calls := datastore_calls w @ [Insert_payment_history]\<rparr> in
      case insert_throws e of
        Some m \<Rightarrow> Inl (DatastoreError m, w1)
      | None \<Rightarrow> Inr (w1\<lparr>payment_history := payment_history w1 @ [row]\<rparr>))"

section \<open>Webhook events\<close>

text \<open>
  \<open>event.data.object\<close> is a checkout session, a subscription or an invoice; the handlers
  read it untyped, so one record carries every field any of them reads.
\<close>

record stripe_object =
  obj_id :: jsval
  obj_metadata :: "metadata option"
  mode :: jsval
  subscription :: jsval
  customer :: jsval
  payment_intent :: jsval
  amount_total :: number_field
  currency :: jsval
  client_reference_id :: jsval
  status :: jsval

record event =
  event_id :: string
  event_type :: string
  data_object :: stripe_object

text \<open>
  A webhook request, as the route reads it: \<open>req.body\<close> and the \<open>stripe-signature\<close>
  header.
\<close>

record webhook_request =
  raw_body :: string
  stripe_signature :: jsval

record config =
  STRIPE_WEBHOOK_SECRET :: jsval
  STRIPE_WEEKLY_PRICE_ID :: jsval
  STRIPE_LIFETIME_PRICE_ID :: jsval
  CLIENT_URL :: jsval

datatype payload = Send string | Json_received | Json_url jsval | Json_error string

record response =
  status_code :: nat
  payload :: payload

text \<open>
  \<open>stripe.webhooks.constructEvent(body, signature, secret)\<close> belongs to the processor's
  library: it is a parameter of the handlers, returning the parsed event or the message
  of the error it throws.
\<close>

type_synonym construct_event = "string \<Rightarrow> jsval \<Rightarrow> jsval \<Rightarrow> string + event"

text \<open>The call both webhook routes open with.\<close>

definition verify_event :: "construct_event \<Rightarrow> config \<Rightarrow> webhook_request \<Rightarrow> string + event" where
  "verify_event constructEvent cfg req =
     constructEvent (raw_body req) (stripe_signature req) (STRIPE_WEBHOOK_SECRET cfg)"

section \<open>The webhook handlers of server.js\<close>

definition checkout_status :: "stripe_object \<Rightarrow> string" where
  "checkout_status session =
     (if strict_eq (mode session) ''subscription''
      then (if truthy (subscription session) then ''trial'' else ''active'')
      else ''active'')"

definition checkout_updateData :: "env \<Rightarrow> stripe_object \<Rightarrow> jsval \<Rightarrow> profile \<Rightarrow> profile" where
  "checkout_updateData e session plan r =
     (let r1 = r\<lparr>subscription_tier := set_col plan (subscription_tier r),
                 subscription_status := Some (checkout_status session),
                 stripe_customer_id := set_col (customer session) (stripe_customer_id r),
                 subscription_start_date := Some (date_first e)\<rparr>
      in if truthy (subscription session)
         then r1\<lparr>stripe_subscription_id :=
                    set_col (subscription session) (stripe_subscription_id r1),
                  trial_end_date := Some (setDate_plus (LocalTZA e) 7 (date_second e))\<rparr>
         else r1)"

definition checkout_payment_row :: "stripe_object \<Rightarrow> jsval \<Rightarrow> jsval \<Rightarrow> string \<Rightarrow> payment" where
  "checkout_payment_row session userId plan c =
     \<lparr>user_id = to_col userId,
      stripe_payment_id = to_col (js_or (payment_intent session) (obj_id session)),
      amount = Divide (amount_total session) 100,
      currency_code = toUpperCase c,
      payment_type = (if strict_eq plan ''lifetime'' then ''one_time'' else ''subscription''),
      payment_status = ''succeeded''\<rparr>"

definition handleCheckoutComplete :: "env \<Rightarrow> stripe_object \<Rightarrow> world \<Rightarrow> js_error \<times> world + world" where
  "handleCheckoutComplete e session w =
     (case obj_metadata session of
        None \<Rightarrow> Inl (TypeError ''Cannot read properties of undefined (reading userId)'', w)
      | Some md \<Rightarrow>
          let userId = meta_userId md; plan = meta_plan md in
          (case supabase_update_profiles e (\<lambda>r. Some (profile_id r)) userId
                  (checkout_updateData e session plan) w of
             Inl err \<Rightarrow> Inl err
           | Inr w1 \<Rightarrow>
               (case currency session of
                  Str c \<Rightarrow> supabase_insert_payment e (checkout_payment_row session userId plan c) w1
                | Undefined \<Rightarrow>
                    Inl (TypeError ''Cannot read properties of undefined (reading toUpperCase)'', w1)
                | Null \<Rightarrow>
                    Inl (TypeError ''Cannot read properties of null (reading toUpperCase)'', w1))))"

definition subscription_update_status :: "stripe_object \<Rightarrow> string" where
  "subscription_update_status sub =
     (if strict_eq (status sub) ''trialing'' then ''trial''
      else if strict_eq (status sub) ''active'' then ''active''
      else ''past_due'')"

definition handleSubscriptionUpdate :: "env \<Rightarrow> stripe_object \<Rightarrow> world \<Rightarrow> js_error \<times> world + world" where
  "handleSubscriptionUpdate e sub w =
     supabase_update_profiles e stripe_subscription_id (obj_id sub)
       (\<lambda>r. r\<lparr>subscription_status := Some (subscription_update_status sub),
               last_payment_date := Some (date_first e)\<rparr>) w"

definition handleSubscriptionDeleted :: "env \<Rightarrow> stripe_object \<Rightarrow> world \<Rightarrow> js_error \<times> world + world" where
  "handleSubscriptionDeleted e sub w =
     supabase_update_profiles e stripe_subscription_id (obj_id sub)
       (\<lambda>r. r\<lparr>subscription_status := Some ''canceled'',
               subscription_tier := Some ''free'',
               subscription_end_date := Some (date_first e)\<rparr>) w"

definition handlePaymentSucceeded :: "env \<Rightarrow> stripe_object \<Rightarrow> world \<Rightarrow> js_error \<times> world + world" where
  "handlePaymentSucceeded e invoice w =
     (if \<not> truthy (subscription invoice) then Inr w
      else supabase_update_profiles e stripe_subscription_id (subscription invoice)
             (\<lambda>r. r\<lparr>subscription_status := Some ''active'',
                     last_payment_date := Some (date_first e)\<rparr>) w)"

definition handlePaymentFailed :: "env \<Rightarrow> stripe_object \<Rightarrow> world \<Rightarrow> js_error \<times> world + world" where
  "handlePaymentFailed e invoice w =
     supabase_update_profiles e stripe_subscription_id (subscription invoice)
       (\<lambda>r. r\<lparr>subscription_status := Some ''past_due''\<rparr>) w"

text \<open>The \<open>switch (event.type)\<close> of the webhook route.\<close>

definition dispatch :: "env \<Rightarrow> event \<Rightarrow> world \<Rightarrow> js_error \<times> world + world" where
  "dispatch e ev w =
     (if event_type ev = ''checkout.session.completed''
        then handleCheckoutComplete e (data_object ev) w
      else if event_type ev = ''customer.subscription.updated''
        then handleSubscriptionUpdate e (data_object ev) w
      else if event_type ev = ''customer.subscription.deleted''
        then handleSubscriptionDeleted e (data_object ev) w
      else if event_type ev = ''invoice.payment_succeeded''
        then handlePaymentSucceeded e (data_object ev) w
      else if event_type ev = ''invoice.payment_failed''
        then handlePaymentFailed e (data_object ev) w
      else Inr w)"

text \<open>\<open>app.post('/webhook', ...)\<close> of server.js.\<close>

definition webhook ::
  "construct_event \<Rightarrow> config \<Rightarrow> env \<Rightarrow> webhook_request \<Rightarrow> world \<Rightarrow> response \<times> world" where
  "webhook constructEvent cfg e req w =
     (case verify_event constructEvent cfg req of
        Inl msg \<Rightarrow> (\<lparr>status_code = 400, payload = Send (''Webhook Error: '' @ msg)\<rparr>, w)
      | Inr ev \<Rightarrow>
          (case dispatch e ev w of
             Inr w1 \<Rightarrow> (\<lparr>status_code = 200, payload = Json_received\<rparr>, w1)
           | Inl (err, w1) \<Rightarrow>
               (\<lparr>status_code = 500, payload = Send ''Webhook handler failed''\<rparr>,
                w1\<lparr>console := console w1 @ [Console_error_object ''Webhook error:'' err]\<rparr>)))"

section \<open>The webhook handler of the second server file (src/unnamed/part_000)\<close>

definition checkout_plan_part_000 :: "stripe_object \<Rightarrow> jsval" where
  "checkout_plan_part_000 session =
     (let planFromMeta = (case obj_metadata session of None \<Rightarrow> Undefined | Some md \<Rightarrow> meta_plan md);
          inferredPlan = (if truthy (subscription session) then Str ''weekly'' else Str ''lifetime'')
      in js_or planFromMeta inferredPlan)"

definition checkout_updateData_part_000 :: "stripe_object \<Rightarrow> jsval \<Rightarrow> profile \<Rightarrow> profile" where
  "checkout_updateData_part_000 session plan r =
     r\<lparr>subscription_tier := set_col plan (subscription_tier r),
       subscription_status := Some ''active'',
       stripe_customer_id := set_col (customer session) (stripe_customer_id r),
       stripe_subscription_id := set_col (js_or (subscription session) Null) (stripe_subscription_id r)\<rparr>"

definition webhook_part_000 ::
  "construct_event \<Rightarrow> config \<Rightarrow> env \<Rightarrow> webhook_request \<Rightarrow> world \<Rightarrow> response \<times> world" where
  "webhook_part_000 constructEvent cfg e req w =
     (case verify_event constructEvent cfg req of
        Inl msg \<Rightarrow>
          (\<lparr>status_code = 400, payload = Send (''Webhook Error: '' @ msg)\<rparr>,
           w\<lparr>console := console w @ [Console_log (''Webhook signature failed: '' @ msg)]\<rparr>)
      | Inr ev \<Rightarrow>
          (let w' =
             (if event_type ev = ''checkout.session.completed'' then
                (let session = data_object ev;
                     userId = client_reference_id session;
                     plan = checkout_plan_part_000 session
                 in if truthy userId \<and> truthy plan then
                      (case supabase_update_profiles e (\<lambda>r. Some (profile_id r)) userId
                              (checkout_updateData_part_000 session plan) w of
                         Inr w1 \<Rightarrow> w1
                       | Inl (err, w1) \<Rightarrow>
                           w1\<lparr>console := console w1 @
                                 [Console_error ''Supabase update error in webhook:'' (message err)]\<rparr>)
                    else w)
              else w)
           in (\<lparr>status_code = 200, payload = Json_received\<rparr>, w')))"

section \<open>Checkout session creation\<close>

text \<open>
  The four fields the routes destructure from the JSON body of
  \<open>POST /create-checkout-session\<close>, each absent or any JSON value (a body that is a JSON
  array has none of them). \<open>req.body\<close> itself is \<open>None\<close> when it is \<open>undefined\<close>.
\<close>

record checkout_body =
  plan :: json
  userId :: json
  email :: json
  skipTrial :: json

record checkout_request =
  body :: "checkout_body option"

text \<open>
  \<open>stripe.checkout.sessions.create(config)\<close> is the processor: a parameter, returning the
  session's \<open>url\<close> or the message of the error it throws.
\<close>

type_synonym sessions_create = "session_config \<Rightarrow> string + jsval"

text \<open>
  \<open>prices[plan]\<close> on the object literal \<open>{weekly: ..., lifetime: ...}\<close>. The plan is
  turned into a property key, which can throw. A property read follows the prototype
  chain, so the names of \<open>Object.prototype\<close>'s members yield an inherited (truthy) value;
  every other key yields \<open>undefined\<close>.
\<close>

definition object_prototype_keys :: "string list" where
  "object_prototype_keys =
     [''constructor'', ''__proto__'', ''hasOwnProperty'', ''isPrototypeOf'',
      ''propertyIsEnumerable'', ''toLocaleString'', ''toString'', ''valueOf'',
      ''__defineGetter__'', ''__defineSetter__'', ''__lookupGetter__'', ''__lookupSetter__'']"

definition prices_lookup :: "config \<Rightarrow> json \<Rightarrow> js_error + price_value" where
  "prices_lookup cfg p =
     (case to_property_key p of
        None \<Rightarrow> Inl (TypeError ''Cannot convert object to primitive value'')
      | Some k \<Rightarrow>
          Inr (if k = ''weekly'' then Price (STRIPE_WEEKLY_PRICE_ID cfg)
               else if k = ''lifetime'' then Price (STRIPE_LIFETIME_PRICE_ID cfg)
               else if k \<in> set object_prototype_keys then Inherited k
               else Price Undefined))"

fun truthy_price :: "price_value \<Rightarrow> bool" where
  "truthy_price (Price v) = truthy v"
| "truthy_price (Inherited k) = True"

text \<open>\<open>app.post('/create-checkout-session', ...)\<close> of server.js.\<close>

definition checkout_sessionConfig :: "config \<Rightarrow> checkout_body \<Rightarrow> price_value \<Rightarrow> session_config" where
  "checkout_sessionConfig cfg b price =
     (let sessionConfig =
        \<lparr>customer_email = email b,
         cfg_client_reference_id = userId b,
         line_item_price = price,
         line_item_quantity = 1,
         cfg_mode = (if strict_eq_json (plan b) ''lifetime'' then ''payment'' else ''subscription''),
         success_url = template (CLIENT_URL cfg) @ ''/success?session_id={CHECKOUT_SESSION_ID}'',
         cancel_url = template (CLIENT_URL cfg) @ ''/pricing'',
         subscription_data = None,
         cfg_metadata = \<lparr>cm_userId = userId b, cm_plan = plan b\<rparr>\<rparr>
      in if strict_eq_json (plan b) ''weekly'' \<and> \<not> truthy_json (skipTrial b)
         then sessionConfig\<lparr>subscription_data := Some \<lparr>trial_period_days = 7\<rparr>\<rparr>
         else sessionConfig)"

definition create_checkout_session ::
  "sessions_create \<Rightarrow> config \<Rightarrow> checkout_request \<Rightarrow> world \<Rightarrow> response \<times> world" where
  "create_checkout_session create cfg req w =
     (case body req of
        None \<Rightarrow>
          (\<lparr>status_code = 400,
            payload = Json_error ''Cannot destructure property plan of req.body as it is undefined.''\<rparr>, w)
      | Some b \<Rightarrow>
          (case prices_lookup cfg (plan b) of
             Inl err \<Rightarrow> (\<lparr>status_code = 400, payload = Json_error (message err)\<rparr>, w)
           | Inr price \<Rightarrow>
               (let sessionConfig = checkout_sessionConfig cfg b price;
                    w1 = w\<lparr>processor_calls := processor_calls w @ [sessionConfig]\<rparr>
                in case create sessionConfig of
                     Inr url \<Rightarrow> (\<lparr>status_code = 200, payload = Json_url url\<rparr>, w1)
                   | Inl m \<Rightarrow> (\<lparr>status_code = 400, payload = Json_error m\<rparr>, w1))))"

text \<open>\<open>app.post('/create-checkout-session', ...)\<close> of the second server file.\<close>

definition empty_body :: checkout_body where
  "empty_body =
     \<lparr>plan = JUndefined, userId = JUndefined, email = JUndefined, skipTrial = JUndefined\<rparr>"

definition checkout_sessionConfig_part_000 ::
  "config \<Rightarrow> checkout_body \<Rightarrow> price_value \<Rightarrow> session_config" where
  "checkout_sessionConfig_part_000 cfg b priceId =
     \<lparr>customer_email = email b,
      cfg_client_reference_id = userId b,
      line_item_price = priceId,
      line_item_quantity = 1,
      cfg_mode = (if strict_eq_json (plan b) ''lifetime'' then ''payment'' else ''subscription''),
      success_url = template (CLIENT_URL cfg) @ ''/success?session_id={CHECKOUT_SESSION_ID}'',
      cancel_url = template (CLIENT_URL cfg) @ ''/pricing'',
      subscription_data =
        (if strict_eq_json (plan b) ''weekly'' then Some \<lparr>trial_period_days = 7\<rparr> else None),
      cfg_metadata = \<lparr>cm_userId = JUndefined, cm_plan = plan b\<rparr>\<rparr>"

definition create_checkout_session_part_000 ::
  "sessions_create \<Rightarrow> config \<Rightarrow> checkout_request \<Rightarrow> world \<Rightarrow> response \<times> world" where
  "create_checkout_session_part_000 create cfg req w =
     (let b = (case body req of None \<Rightarrow> empty_body | Some b \<Rightarrow> b) in
      if \<not> truthy_json (plan b) \<or> \<not> truthy_json (userId b) \<or> \<not> truthy_json (email b)
      then (\<lparr>status_code = 400, payload = Json_error ''Missing plan, userId, or email''\<rparr>, w)
      else
        (case prices_lookup cfg (plan b) of
           Inl err \<Rightarrow>
             (\<lparr>status_code = 500, payload = Json_error (message err)\<rparr>,
              w\<lparr>console := console w @ [Console_error ''Checkout error:'' (message err)]\<rparr>)
         | Inr priceId \<Rightarrow>
             if \<not> truthy_price priceId
             then (\<lparr>status_code = 400, payload = Json_error ''Unknown plan''\<rparr>, w)
             else
               (let sessionConfig = checkout_sessionConfig_part_000 cfg b priceId;
                    w1 = w\<lparr>processor_calls := processor_calls w @ [sessionConfig]\<rparr>
                in case create sessionConfig of
                     Inr url \<Rightarrow> (\<lparr>status_code = 200, payload = Json_url url\<rparr>, w1)
                   | Inl m \<Rightarrow>
                       (\<lparr>status_code = 500, payload = Json_error m\<rparr>,
                        w1\<lparr>console := console w1 @ [Console_error ''Checkout error:'' m]\<rparr>))))"

section \<open>Sequences of webhook deliveries\<close>

text \<open>The world a handler leaves behind, whether it returned or threw.\<close>

fun world_of :: "js_error \<times> world + world \<Rightarrow> world" where
  "world_of (Inr w) = w"
| "world_of (Inl (err, w)) = w"

fun run ::
  "construct_event \<Rightarrow> config \<Rightarrow> (env \<times> webhook_request) list \<Rightarrow> world \<Rightarrow> world" where
  "run constructEvent cfg [] w = w"
| "run constructEvent cfg ((e, req) # rest) w =
     run constructEvent cfg rest (snd (webhook constructEvent cfg e req w))"

section \<open>Fixtures for concrete runs\<close>

definition example_profile :: "string \<Rightarrow> profile" where
  "example_profile uid =
     \<lparr>profile_id = uid, subscription_tier = Some ''free'', subscription_status = Some ''none'',
      stripe_customer_id = None, stripe_subscription_id = None, subscription_start_date = None,
      trial_end_date = None, subscription_end_date = None, last_payment_date = None\<rparr>"

definition example_world :: world where
  "example_world =
     \<lparr>profiles = [example_profile ''u1'', example_profile ''u2''], payment_history = [],
      datastore_calls = [], processor_calls = [], console = []\<rparr>"

definition example_config :: config where
  "example_config =
     \<lparr>STRIPE_WEBHOOK_SECRET = Str ''whsec_1'', STRIPE_WEEKLY_PRICE_ID = Str ''price_w'',
      STRIPE_LIFETIME_PRICE_ID = Str ''price_l'', CLIENT_URL = Str ''https://app.example''\<rparr>"

text \<open>
  A host on UTC, and a host two hours ahead of UTC whose clocks go back one hour at the
  instant 3000000 (a local time that occurs twice is read with the earlier offset).
\<close>

definition utc_host :: local_tza where
  "utc_host t isUTC = 0"

definition dst_host :: local_tza where
  "dst_host t isUTC =
     (if isUTC then (if t < 3000000 then 7200000 else 3600000)
      else (if t < 3000000 + 7200000 then 7200000 else 3600000))"

definition example_env :: env where
  "example_env =
     \<lparr>date_first = 1000, date_second = 1001, LocalTZA = utc_host, update_throws = None,
      insert_throws = None\<rparr>"

definition example_dst_env :: env where
  "example_dst_env = example_env\<lparr>LocalTZA := dst_host\<rparr>"

definition empty_object :: stripe_object where
  "empty_object =
     \<lparr>obj_id = Undefined, obj_metadata = None, mode = Undefined, subscription = Undefined,
      customer = Undefined, payment_intent = Undefined, amount_total = No_number, currency = Undefined,
      client_reference_id = Undefined, status = Undefined\<rparr>"

definition example_lifetime_session :: stripe_object where
  "example_lifetime_session =
     empty_object\<lparr>obj_id := Str ''cs_1'',
       obj_metadata := Some \<lparr>meta_userId = Str ''u1'', meta_plan = Str ''lifetime''\<rparr>,
       mode := Str ''payment'', subscription := Null, customer := Str ''cus_1'',
       payment_intent := Str ''pi_1'', amount_total := Number 4999, currency := Str ''usd'',
       client_reference_id := Str ''u1''\<rparr>"

definition example_weekly_session :: stripe_object where
  "example_weekly_session =
     empty_object\<lparr>obj_id := Str ''cs_2'',
       obj_metadata := Some \<lparr>meta_userId = Str ''u1'', meta_plan = Str ''weekly''\<rparr>,
       mode := Str ''subscription'', subscription := Str ''sub_1'', customer := Str ''cus_1'',
       payment_intent := Null, amount_total := Number 499, currency := Str ''usd'',
       client_reference_id := Str ''u1''\<rparr>"

definition example_subscription :: stripe_object where
  "example_subscription = empty_object\<lparr>obj_id := Str ''sub_1'', status := Str ''past_due''\<rparr>"

definition example_invoice :: stripe_object where
  "example_invoice = empty_object\<lparr>obj_id := Str ''in_1'', subscription := Str ''sub_1''\<rparr>"

definition example_subscribed_world :: world where
  "example_subscribed_world =
     example_world\<lparr>profiles :=
       [(example_profile ''u1'')\<lparr>subscription_tier := Some ''weekly'',
           subscription_status := Some ''trial'', stripe_customer_id := Some ''cus_1'',
           stripe_subscription_id := Some ''sub_1''\<rparr>,
        (example_profile ''u2'')\<lparr>subscription_tier := Some ''weekly'',
           subscription_status := Some ''active'', stripe_customer_id := Some ''cus_2'',
           stripe_subscription_id := Some ''sub_2''\<rparr>]\<rparr>"

text \<open>
  A stand-in for the processor's verifier: the signature must equal the secret, and the
  body names one of the example events.
\<close>

definition example_events :: "(string \<times> event) list" where
  "example_events =
     [(''lifetime'', \<lparr>event_id = ''evt_1'', event_type = ''checkout.session.completed'',
                      data_object = example_lifetime_session\<rparr>),
      (''weekly'', \<lparr>event_id = ''evt_2'', event_type = ''checkout.session.completed'',
                    data_object = example_weekly_session\<rparr>),
      (''no_metadata'', \<lparr>event_id = ''evt_3'', event_type = ''checkout.session.completed'',
                         data_object = example_weekly_session\<lparr>obj_metadata := None\<rparr>\<rparr>),
      (''no_currency'', \<lparr>event_id = ''evt_4'', event_type = ''checkout.session.completed'',
                         data_object = example_lifetime_session\<lparr>currency := Null\<rparr>\<rparr>),
      (''updated'', \<lparr>event_id = ''evt_5'', event_type = ''customer.subscription.updated'',
                     data_object = example_subscription\<rparr>),
      (''deleted'', \<lparr>event_id = ''evt_6'', event_type = ''customer.subscription.deleted'',
                     data_object = example_subscription\<rparr>),
      (''succeeded'', \<lparr>event_id = ''evt_7'', event_type = ''invoice.payment_succeeded'',
                       data_object = example_invoice\<rparr>),
      (''failed'', \<lparr>event_id = ''evt_8'', event_type = ''invoice.payment_failed'',
                    data_object = example_invoice\<rparr>),
      (''empty_metadata'', \<lparr>event_id = ''evt_9'', event_type = ''checkout.session.completed'',
                            data_object = example_weekly_session
                              \<lparr>obj_metadata := Some \<lparr>meta_userId = Undefined,
                                                      meta_plan = Undefined\<rparr>\<rparr>\<rparr>)]"

definition example_constructEvent :: construct_event where
  "example_constructEvent raw sig secret =
     (if sig \<noteq> secret then Inl ''No signatures found matching the expected signature for payload''
      else case map_of example_events raw of
             None \<Rightarrow> Inl ''Unexpected token in JSON''
           | Some ev \<Rightarrow> Inr ev)"

definition signed_request :: "string \<Rightarrow> webhook_request" where
  "signed_request raw = \<lparr>raw_body = raw, stripe_signature = Str ''whsec_1''\<rparr>"

definition forged_request :: "string \<Rightarrow> webhook_request" where
  "forged_request raw = \<lparr>raw_body = raw, stripe_signature = Str ''forged''\<rparr>"

text \<open>A stand-in for the processor: it opens a session when the price is a string.\<close>

definition example_sessions_create :: sessions_create where
  "example_sessions_create c =
     (case line_item_price c of
        Price (Str p) \<Rightarrow> Inr (Str ''https://checkout.example/session'')
      | Price Undefined \<Rightarrow> Inl ''Missing required param: line_items[0][price].''
      | Price Null \<Rightarrow> Inl ''Missing required param: line_items[0][price].''
      | Inherited k \<Rightarrow> Inl ''Invalid string'')"

definition example_body :: "json \<Rightarrow> json \<Rightarrow> checkout_request" where
  "example_body p skip =
     \<lparr>body = Some \<lparr>plan = p, userId = JStr ''u1'', email = JStr ''u1@example.com'',
                    skipTrial = skip\<rparr>\<rparr>"

definition example_failing_env :: env where
  "example_failing_env = example_env\<lparr>update_throws := Some ''fetch failed''\<rparr>"

definition example_insert_failing_env :: env where
  "example_insert_failing_env = example_env\<lparr>insert_throws := Some ''fetch failed''\<rparr>"

definition example_later_env :: env where
  "example_later_env = example_env\<lparr>date_first := 5000, date_second := 5001\<rparr>"

section \<open>The tier and status invariant\<close>

text \<open>A row with tier "lifetime" has status "active" or "canceled".\<close>

definition tier_status_ok :: "profile \<Rightarrow> bool" where
  "tier_status_ok r =
     (subscription_tier r = Some ''lifetime'' \<longrightarrow>
        subscription_status r = Some ''active'' \<or> subscription_status r = Some ''canceled'')"

text \<open>No row with tier "lifetime" is selected by the subscription id \<open>v\<close>.\<close>

definition lifetime_rows_apart :: "jsval \<Rightarrow> world \<Rightarrow> bool" where
  "lifetime_rows_apart v w =
     list_all (\<lambda>r. subscription_tier r = Some ''lifetime'' \<longrightarrow> \<not> eq_filter (stripe_subscription_id r) v)
       (profiles w)"

text \<open>
  The events under which server.js keeps the invariant: a checkout completion that yields
  the status "trial" names a plan other than "lifetime"; a subscription update to a status
  other than "active", and a failed invoice payment, carry a subscription id that no
  lifetime row holds. Every other event qualifies.
\<close>

definition invariant_safe :: "event \<Rightarrow> world \<Rightarrow> bool" where
  "invariant_safe ev w =
     (if event_type ev = ''checkout.session.completed'' then
        (case obj_metadata (data_object ev) of
           None \<Rightarrow> True
         | Some md \<Rightarrow>
             checkout_status (data_object ev) = ''trial'' \<longrightarrow>
               meta_plan md \<noteq> Str ''lifetime'' \<and> meta_plan md \<noteq> Undefined)
      else if event_type ev = ''customer.subscription.updated'' then
        subscription_update_status (data_object ev) \<noteq> ''active'' \<longrightarrow>
          lifetime_rows_apart (obj_id (data_object ev)) w
      else if event_type ev = ''invoice.payment_failed'' then
        lifetime_rows_apart (subscription (data_object ev)) w
      else True)"

fun all_invariant_safe ::
  "construct_event \<Rightarrow> config \<Rightarrow> (env \<times> webhook_request) list \<Rightarrow> world \<Rightarrow> bool" where
  "all_invariant_safe constructEvent cfg [] w = True"
| "all_invariant_safe constructEvent cfg ((e, req) # rest) w =
     ((case verify_event constructEvent cfg req of
         Inl msg \<Rightarrow> True
       | Inr ev \<Rightarrow> invariant_safe ev w)
      \<and> all_invariant_safe constructEvent cfg rest (snd (webhook constructEvent cfg e req w)))"

section \<open>Shared lemmas on the webhook routes\<close>

lemma strict_eq_Str: "strict_eq v lit = (v = Str lit)"
  by (cases v) simp_all

lemma dispatch_checkout:
  "event_type ev = ''checkout.session.completed'' \<Longrightarrow>
   dispatch e ev w = handleCheckoutComplete e (data_object ev) w"
  by (simp add: dispatch_def)

lemma dispatch_updated:
  "event_type ev = ''customer.subscription.updated'' \<Longrightarrow>
   dispatch e ev w = handleSubscriptionUpdate e (data_object ev) w"
  by (simp add: dispatch_def)

lemma dispatch_deleted:
  "event_type ev = ''customer.subscription.deleted'' \<Longrightarrow>
   dispatch e ev w = handleSubscriptionDeleted e (data_object ev) w"
  by (simp add: dispatch_def)

lemma dispatch_succeeded:
  "event_type ev = ''invoice.payment_succeeded'' \<Longrightarrow>
   dispatch e ev w = handlePaymentSucceeded e (data_object ev) w"
  by (simp add: dispatch_def)

lemma dispatch_failed:
  "event_type ev = ''invoice.payment_failed'' \<Longrightarrow>
   dispatch e ev w = handlePaymentFailed e (data_object ev) w"
  by (simp add: dispatch_def)

lemma webhook_verified:
  assumes "verify_event constructEvent cfg req = Inr ev"
  shows "webhook constructEvent cfg e req w =
           (case dispatch e ev w of
              Inr w1 \<Rightarrow> (\<lparr>status_code = 200, payload = Json_received\<rparr>, w1)
            | Inl (err, w1) \<Rightarrow>
                (\<lparr>status_code = 500, payload = Send ''Webhook handler failed''\<rparr>,
                 w1\<lparr>console := console w1 @ [Console_error_object ''Webhook error:'' err]\<rparr>))"
  using assms by (simp add: webhook_def)

lemma webhook_tables:
  assumes "verify_event constructEvent cfg req = Inr ev"
  shows "profiles (snd (webhook constructEvent cfg e req w)) = profiles (world_of (dispatch e ev w))"
    and "payment_history (snd (webhook constructEvent cfg e req w))
           = payment_history (world_of (dispatch e ev w))"
  using assms by (auto simp: webhook_def split: sum.splits)

lemma supabase_update_ok:
  "update_throws e = None \<Longrightarrow>
   supabase_update_profiles e col v f w =
     Inr (w\<lparr>datastore_calls := datastore_calls w @ [Update_profiles],
            profiles := update_eq col v f (profiles w)\<rparr>)"
  by (simp add: supabase_update_profiles_def Let_def)

lemma supabase_update_throws:
  "update_throws e = Some m \<Longrightarrow>
   supabase_update_profiles e col v f w =
     Inl (DatastoreError m, w\<lparr>datastore_calls := datastore_calls w @ [Update_profiles]\<rparr>)"
  by (simp add: supabase_update_profiles_def Let_def)

lemma eq_filter_Str: "eq_filter c (Str S) = (c = Some S)"
  by (cases c) auto

lemma example_lifetime_verified:
  "verify_event example_constructEvent example_config (signed_request ''lifetime'')
   = Inr \<lparr>event_id = ''evt_1'', event_type = ''checkout.session.completed'',
          data_object = example_lifetime_session\<rparr>"
  by (simp add: verify_event_def example_constructEvent_def signed_request_def example_config_def
        example_events_def)

lemma dispatch_update_throws:
  assumes "update_throws e = Some m"
      and "(event_type ev = ''checkout.session.completed'' \<and> obj_metadata (data_object ev) \<noteq> None)
         \<or> event_type ev = ''customer.subscription.updated''
         \<or> event_type ev = ''customer.subscription.deleted''
         \<or> (event_type ev = ''invoice.payment_succeeded'' \<and> truthy (subscription (data_object ev)))
         \<or> event_type ev = ''invoice.payment_failed''"
  shows "dispatch e ev w =
           Inl (DatastoreError m, w\<lparr>datastore_calls := datastore_calls w @ [Update_profiles]\<rparr>)"
  using assms(2)
proof (elim disjE conjE)
  assume "event_type ev = ''checkout.session.completed''" "obj_metadata (data_object ev) \<noteq> None"
  then show ?thesis
    using assms(1)
    by (auto simp: dispatch_checkout handleCheckoutComplete_def supabase_update_throws)
next
  assume "event_type ev = ''customer.subscription.updated''"
  then show ?thesis
    using assms(1) by (simp add: dispatch_updated handleSubscriptionUpdate_def supabase_update_throws)
next
  assume "event_type ev = ''customer.subscription.deleted''"
  then show ?thesis
    using assms(1) by (simp add: dispatch_deleted handleSubscriptionDeleted_def supabase_update_throws)
next
  assume "event_type ev = ''invoice.payment_succeeded''" "truthy (subscription (data_object ev))"
  then show ?thesis
    using assms(1) by (simp add: dispatch_succeeded handlePaymentSucceeded_def supabase_update_throws)
next
  assume "event_type ev = ''invoice.payment_failed''"
  then show ?thesis
    using assms(1) by (simp add: dispatch_failed handlePaymentFailed_def supabase_update_throws)
qed

lemma dispatch_insert_throws:
  assumes "update_throws e = None" and "insert_throws e = Some m"
      and "event_type ev = ''checkout.session.completed''"
      and "obj_metadata (data_object ev) = Some md"
      and "currency (data_object ev) = Str c"
  shows "dispatch e ev w =
           Inl (DatastoreError m,
                w\<lparr>datastore_calls := datastore_calls w @ [Update_profiles, Insert_payment_history],
                  profiles := update_eq (\<lambda>r. Some (profile_id r)) (meta_userId md)
                     (checkout_updateData e (data_object ev) (meta_plan md)) (profiles w)\<rparr>)"
  using assms
  by (simp add: dispatch_checkout handleCheckoutComplete_def supabase_update_ok
        supabase_insert_payment_def Let_def)

lemma example_updated_verified:
  "verify_event example_constructEvent example_config (signed_request ''updated'')
   = Inr \<lparr>event_id = ''evt_5'', event_type = ''customer.subscription.updated'',
          data_object = example_subscription\<rparr>"
  by (simp add: verify_event_def example_constructEvent_def signed_request_def example_config_def
        example_events_def)

lemma world_of_update:
  "profiles (world_of (supabase_update_profiles e col v f w)) =
     (if update_throws e = None then update_eq col v f (profiles w) else profiles w)"
  by (cases "update_throws e") (simp_all add: supabase_update_profiles_def Let_def)

lemma update_eq_twice:
  assumes "\<And>r. col (f r) = col r" and "\<And>r. g (f r) = g r"
  shows "update_eq col v g (update_eq col v f rows) = update_eq col v g rows"
  using assms by (induction rows) (simp_all add: update_eq_def)

lemma update_eq_column:
  assumes "\<And>r. c (g r) = c (f r)"
  shows "map c (update_eq col v g rows) = map c (update_eq col v f rows)"
  using assms by (induction rows) (simp_all add: update_eq_def)

text \<open>
  Redelivery of an update whose written values \<open>F e\<close> depend on the clock only: the
  second write replaces the first.
\<close>

lemma redelivery_rows:
  fixes F :: "env \<Rightarrow> profile \<Rightarrow> profile"
  assumes key: "\<And>e r. col (F e r) = col r"
      and over: "\<And>r. F e2 (F e1 r) = F e2 r"
      and st: "\<And>r. subscription_status (F e2 r) = subscription_status (F e1 r)"
      and ti: "\<And>r. subscription_tier (F e2 r) = subscription_tier (F e1 r)"
      and same: "date_first e1 = date_first e2 \<Longrightarrow> F e2 = F e1"
  shows "update_eq col v (F e2) (if t then update_eq col v (F e1) rows else rows)
           = update_eq col v (F e2) rows
       \<and> (t \<longrightarrow>
            map subscription_status (update_eq col v (F e2) (update_eq col v (F e1) rows))
              = map subscription_status (update_eq col v (F e1) rows)
          \<and> map subscription_tier (update_eq col v (F e2) (update_eq col v (F e1) rows))
              = map subscription_tier (update_eq col v (F e1) rows)
          \<and> (date_first e1 = date_first e2 \<longrightarrow>
               update_eq col v (F e2) (update_eq col v (F e1) rows) = update_eq col v (F e1) rows))"
proof -
  have tw: "update_eq col v (F e2) (update_eq col v (F e1) rows) = update_eq col v (F e2) rows"
    by (rule update_eq_twice) (simp_all add: key over)
  have s: "map subscription_status (update_eq col v (F e2) rows)
             = map subscription_status (update_eq col v (F e1) rows)"
    by (rule update_eq_column) (rule st)
  have i: "map subscription_tier (update_eq col v (F e2) rows)
             = map subscription_tier (update_eq col v (F e1) rows)"
    by (rule update_eq_column) (rule ti)
  have d: "date_first e1 = date_first e2 \<longrightarrow>
             update_eq col v (F e2) (update_eq col v (F e1) rows) = update_eq col v (F e1) rows"
  proof
    assume "date_first e1 = date_first e2"
    then have "F e2 = F e1" by (rule same)
    with tw show "update_eq col v (F e2) (update_eq col v (F e1) rows) = update_eq col v (F e1) rows"
      by simp
  qed
  have a: "update_eq col v (F e2) (if t then update_eq col v (F e1) rows else rows)
           = update_eq col v (F e2) rows"
    by (simp add: tw)
  show ?thesis
    using a d by (auto simp: tw s i)
qed

lemma example_subscribed_profiles:
  "profiles example_subscribed_world =
     [\<lparr>profile_id = ''u1'', subscription_tier = Some ''weekly'',
       subscription_status = Some ''trial'', stripe_customer_id = Some ''cus_1'',
       stripe_subscription_id = Some ''sub_1'', subscription_start_date = None,
       trial_end_date = None, subscription_end_date = None, last_payment_date = None\<rparr>,
      \<lparr>profile_id = ''u2'', subscription_tier = Some ''weekly'',
       subscription_status = Some ''active'', stripe_customer_id = Some ''cus_2'',
       stripe_subscription_id = Some ''sub_2'', subscription_start_date = None,
       trial_end_date = None, subscription_end_date = None, last_payment_date = None\<rparr>]"
  by (simp add: example_subscribed_world_def example_world_def example_profile_def)

lemma example_updated_profiles:
  "update_throws e = None \<Longrightarrow>
   profiles (snd (webhook example_constructEvent example_config e (signed_request ''updated'') w))
     = update_eq stripe_subscription_id (Str ''sub_1'')
         (\<lambda>r. r\<lparr>subscription_status := Some ''past_due'',
                 last_payment_date := Some (date_first e)\<rparr>) (profiles w)"
  by (simp add: webhook_tables(1) [OF example_updated_verified] dispatch_updated
        handleSubscriptionUpdate_def world_of_update example_subscription_def empty_object_def
        subscription_update_status_def)

lemma example_updated_once:
  "map last_payment_date (profiles (snd (webhook example_constructEvent example_config example_env
       (signed_request ''updated'') example_subscribed_world))) = [Some 1000, None]"
  by (simp add: example_updated_profiles example_env_def example_subscribed_profiles update_eq_def)

lemma example_updated_later:
  "profiles (snd (webhook example_constructEvent example_config example_later_env
       (signed_request ''updated'') example_subscribed_world)) =
     [\<lparr>profile_id = ''u1'', subscription_tier = Some ''weekly'',
       subscription_status = Some ''past_due'', stripe_customer_id = Some ''cus_1'',
       stripe_subscription_id = Some ''sub_1'', subscription_start_date = None,
       trial_end_date = None, subscription_end_date = None, last_payment_date = Some 5000\<rparr>,
      \<lparr>profile_id = ''u2'', subscription_tier = Some ''weekly'',
       subscription_status = Some ''active'', stripe_customer_id = Some ''cus_2'',
       stripe_subscription_id = Some ''sub_2'', subscription_start_date = None,
       trial_end_date = None, subscription_end_date = None, last_payment_date = None\<rparr>]"
  by (simp add: example_updated_profiles example_env_def example_later_env_def
        example_subscribed_profiles update_eq_def)

lemma example_updated_twice:
  "map last_payment_date (profiles (snd (webhook example_constructEvent example_config
       example_later_env (signed_request ''updated'')
       (snd (webhook example_constructEvent example_config example_env
              (signed_request ''updated'') example_subscribed_world)))))
     = [Some 5000, None]"
  by (simp add: example_updated_profiles example_env_def example_later_env_def
        example_subscribed_profiles update_eq_def)

lemma example_weekly_verified:
  "verify_event example_constructEvent example_config (signed_request ''weekly'')
   = Inr \<lparr>event_id = ''evt_2'', event_type = ''checkout.session.completed'',
          data_object = example_weekly_session\<rparr>"
  by (simp add: verify_event_def example_constructEvent_def signed_request_def example_config_def
        example_events_def)

lemma example_no_metadata_verified:
  "verify_event example_constructEvent example_config (signed_request ''no_metadata'')
   = Inr \<lparr>event_id = ''evt_3'', event_type = ''checkout.session.completed'',
          data_object = example_weekly_session\<lparr>obj_metadata := None\<rparr>\<rparr>"
  by (simp add: verify_event_def example_constructEvent_def signed_request_def example_config_def
        example_events_def)

lemma example_empty_metadata_verified:
  "verify_event example_constructEvent example_config (signed_request ''empty_metadata'')
   = Inr \<lparr>event_id = ''evt_9'', event_type = ''checkout.session.completed'',
          data_object = example_weekly_session
            \<lparr>obj_metadata := Some \<lparr>meta_userId = Undefined, meta_plan = Undefined\<rparr>\<rparr>\<rparr>"
  by (simp add: verify_event_def example_constructEvent_def signed_request_def example_config_def
        example_events_def)

lemma example_no_currency_verified:
  "verify_event example_constructEvent example_config (signed_request ''no_currency'')
   = Inr \<lparr>event_id = ''evt_4'', event_type = ''checkout.session.completed'',
          data_object = example_lifetime_session\<lparr>currency := Null\<rparr>\<rparr>"
  by (simp add: verify_event_def example_constructEvent_def signed_request_def example_config_def
        example_events_def)

lemma example_profiles:
  "profiles example_world =
     [\<lparr>profile_id = ''u1'', subscription_tier = Some ''free'', subscription_status = Some ''none'',
       stripe_customer_id = None, stripe_subscription_id = None, subscription_start_date = None,
       trial_end_date = None, subscription_end_date = None, last_payment_date = None\<rparr>,
      \<lparr>profile_id = ''u2'', subscription_tier = Some ''free'', subscription_status = Some ''none'',
       stripe_customer_id = None, stripe_subscription_id = None, subscription_start_date = None,
       trial_end_date = None, subscription_end_date = None, last_payment_date = None\<rparr>]"
  by (simp add: example_world_def example_profile_def)

lemma map_update_eq:
  "map c (update_eq col (Str uid) f rows) =
     map (\<lambda>r. if col r = Some uid then c (f r) else c r) rows"
  by (induction rows) (simp_all add: update_eq_def eq_filter_Str)

lemma eq_filter_Some: "eq_filter (Some x) v = (v = Str x)"
  by (cases v) auto

lemma map_update_eq_id:
  "map c (update_eq (\<lambda>r. Some (profile_id r)) v f rows) =
     map (\<lambda>r. if v = Str (profile_id r) then c (f r) else c r) rows"
  by (induction rows) (simp_all add: update_eq_def eq_filter_Some)

lemma set_col_case:
  "set_col p old = (case p of Str q \<Rightarrow> Some q | Null \<Rightarrow> None | Undefined \<Rightarrow> old)"
  by (cases p) simp_all

lemma example_dst_update_throws: "update_throws example_dst_env = None"
  by (simp add: example_dst_env_def example_env_def)

lemma handleCheckoutComplete_ok:
  assumes "obj_metadata session = Some md" and "currency session = Str c"
      and "update_throws e = None" and "insert_throws e = None"
  shows "handleCheckoutComplete e session w =
           Inr (w\<lparr>datastore_calls := datastore_calls w @ [Update_profiles, Insert_payment_history],
                  profiles := update_eq (\<lambda>r. Some (profile_id r)) (meta_userId md)
                     (checkout_updateData e session (meta_plan md)) (profiles w),
                  payment_history := payment_history w @
                     [checkout_payment_row session (meta_userId md) (meta_plan md) c]\<rparr>)"
  using assms
  by (simp add: handleCheckoutComplete_def supabase_update_ok supabase_insert_payment_def Let_def)

lemma handleCheckoutComplete_profiles:
  assumes "obj_metadata session = Some md" and "update_throws e = None"
  shows "profiles (world_of (handleCheckoutComplete e session w)) =
           update_eq (\<lambda>r. Some (profile_id r)) (meta_userId md)
             (checkout_updateData e session (meta_plan md)) (profiles w)"
proof (cases "currency session")
  case (Str c)
  with assms show ?thesis
    by (cases "insert_throws e")
       (simp_all add: handleCheckoutComplete_def supabase_update_ok supabase_insert_payment_def Let_def)
qed (use assms in \<open>simp_all add: handleCheckoutComplete_def supabase_update_ok Let_def\<close>)

lemma checkout_plan_part_000_truthy: "truthy (checkout_plan_part_000 session)"
  by (simp add: checkout_plan_part_000_def js_or_def Let_def)

lemma webhook_part_000_checkout:
  assumes "verify_event constructEvent cfg req = Inr ev"
      and "event_type ev = ''checkout.session.completed''"
      and "truthy (client_reference_id (data_object ev))"
      and "update_throws e = None"
  shows "webhook_part_000 constructEvent cfg e req w =
           (\<lparr>status_code = 200, payload = Json_received\<rparr>,
            w\<lparr>datastore_calls := datastore_calls w @ [Update_profiles],
              profiles := update_eq (\<lambda>r. Some (profile_id r)) (client_reference_id (data_object ev))
                 (checkout_updateData_part_000 (data_object ev)
                    (checkout_plan_part_000 (data_object ev))) (profiles w)\<rparr>)"
  using assms
  by (simp add: webhook_part_000_def Let_def checkout_plan_part_000_truthy supabase_update_ok)

lemma payment_history_webhook_part_000:
  "payment_history (snd (webhook_part_000 constructEvent cfg e req w)) = payment_history w"
  by (simp add: webhook_part_000_def Let_def supabase_update_profiles_def
           split: sum.splits option.splits prod.splits)

lemma checkout_updateData_tier:
  "subscription_tier (checkout_updateData e session p r) = set_col p (subscription_tier r)"
  by (simp add: checkout_updateData_def Let_def)

lemma checkout_updateData_status:
  "subscription_status (checkout_updateData e session p r) =
     Some (if mode session = Str ''subscription'' \<and> truthy (subscription session)
           then ''trial'' else ''active'')"
  by (simp add: checkout_updateData_def Let_def checkout_status_def strict_eq_Str)

lemma checkout_updateData_customer:
  "stripe_customer_id (checkout_updateData e session p r) =
     set_col (customer session) (stripe_customer_id r)"
  by (simp add: checkout_updateData_def Let_def)

lemma checkout_updateData_subscription:
  "stripe_subscription_id (checkout_updateData e session p r) =
     (if truthy (subscription session) then to_col (subscription session)
      else stripe_subscription_id r)"
  by (cases "subscription session") (simp_all add: checkout_updateData_def Let_def to_col_def)

lemma checkout_updateData_trial_end:
  "trial_end_date (checkout_updateData e session p r) =
     (if truthy (subscription session)
      then Some (date_second e + LocalTZA e (date_second e) True + 604800000
                  - LocalTZA e (date_second e + LocalTZA e (date_second e) True + 604800000) False)
      else trial_end_date r)"
  by (simp add: checkout_updateData_def Let_def setDate_plus_def)

lemma checkout_profiles:
  assumes "verify_event constructEvent cfg req = Inr ev"
      and "event_type ev = ''checkout.session.completed''"
      and "obj_metadata (data_object ev) = Some md"
      and "update_throws e = None"
  shows "profiles (snd (webhook constructEvent cfg e req w)) =
           update_eq (\<lambda>r. Some (profile_id r)) (meta_userId md)
             (checkout_updateData e (data_object ev) (meta_plan md)) (profiles w)"
  using assms(2-4)
  by (simp add: webhook_tables(1) [OF assms(1)] dispatch_checkout handleCheckoutComplete_profiles)

lemma checkout_plan_part_000_Str:
  "checkout_plan_part_000 session =
     Str (case obj_metadata session of
            None \<Rightarrow> (if truthy (subscription session) then ''weekly'' else ''lifetime'')
          | Some m \<Rightarrow>
              (case meta_plan m of
                 Str q \<Rightarrow> if q = [] then (if truthy (subscription session) then ''weekly'' else ''lifetime'')
                          else q
               | Undefined \<Rightarrow> (if truthy (subscription session) then ''weekly'' else ''lifetime'')
               | Null \<Rightarrow> (if truthy (subscription session) then ''weekly'' else ''lifetime'')))"
  by (simp add: checkout_plan_part_000_def js_or_def Let_def split: option.splits jsval.splits)

lemma checkout_no_metadata:
  assumes "verify_event constructEvent cfg req = Inr ev"
      and "event_type ev = ''checkout.session.completed''"
      and "obj_metadata (data_object ev) = None"
  shows "webhook constructEvent cfg e req w =
           (\<lparr>status_code = 500, payload = Send ''Webhook handler failed''\<rparr>,
            w\<lparr>console := console w @
                 [Console_error_object ''Webhook error:''
                    (TypeError ''Cannot read properties of undefined (reading userId)'')]\<rparr>)"
  using assms(2,3)
  by (simp add: webhook_verified [OF assms(1)] dispatch_checkout handleCheckoutComplete_def)

lemma js_or_Null: "set_col (js_or v Null) old = (if truthy v then to_col v else None)"
  by (cases v) (simp_all add: js_or_def to_col_def)

lemma list_all_update_eq:
  assumes "list_all P rows" and "list_all G rows"
      and "\<And>r. P r \<Longrightarrow> G r \<Longrightarrow> eq_filter (col r) v \<Longrightarrow> P (f r)"
  shows "list_all P (update_eq col v f rows)"
  using assms by (induction rows) (simp_all add: update_eq_def)

lemma list_all_update_eq_plain:
  assumes "list_all P rows" and "\<And>r. P r \<Longrightarrow> P (f r)"
  shows "list_all P (update_eq col v f rows)"
  using assms by (induction rows) (simp_all add: update_eq_def)

lemma handleCheckoutComplete_no_metadata:
  "obj_metadata session = None \<Longrightarrow> world_of (handleCheckoutComplete e session w) = w"
  by (simp add: handleCheckoutComplete_def)

lemma handleCheckoutComplete_update_throws:
  "update_throws e = Some m \<Longrightarrow> profiles (world_of (handleCheckoutComplete e session w)) = profiles w"
  by (cases "obj_metadata session")
     (simp_all add: handleCheckoutComplete_def supabase_update_throws)

lemma checkout_updateData_status_raw:
  "subscription_status (checkout_updateData e session p r) = Some (checkout_status session)"
  by (simp add: checkout_updateData_def Let_def)

lemma checkout_keeps_invariant:
  assumes "list_all tier_status_ok (profiles w)"
      and "case obj_metadata session of
             None \<Rightarrow> True
           | Some md \<Rightarrow> checkout_status session = ''trial'' \<longrightarrow>
                          meta_plan md \<noteq> Str ''lifetime'' \<and> meta_plan md \<noteq> Undefined"
  shows "list_all tier_status_ok (profiles (world_of (handleCheckoutComplete e session w)))"
proof (cases "obj_metadata session")
  case None
  with assms(1) show ?thesis by (simp add: handleCheckoutComplete_no_metadata)
next
  case (Some md)
  show ?thesis
  proof (cases "update_throws e")
    case (Some m)
    with assms(1) show ?thesis by (simp add: handleCheckoutComplete_update_throws)
  next
    case None
    have ok: "\<And>r. tier_status_ok r \<Longrightarrow> tier_status_ok (checkout_updateData e session (meta_plan md) r)"
    proof -
      fix r
      assume "tier_status_ok r"
      have cs: "checkout_status session = ''trial'' \<or> checkout_status session = ''active''"
        by (simp add: checkout_status_def)
      show "tier_status_ok (checkout_updateData e session (meta_plan md) r)"
        using assms(2) \<open>obj_metadata session = Some md\<close> cs \<open>tier_status_ok r\<close>
        by (cases "meta_plan md")
           (auto simp: tier_status_ok_def checkout_updateData_status_raw checkout_updateData_tier)
    qed
    show ?thesis
      using assms(1) ok
      by (simp add: handleCheckoutComplete_profiles [OF \<open>obj_metadata session = Some md\<close> None]
            list_all_update_eq_plain)
  qed
qed

lemma dispatch_keeps_invariant:
  assumes "list_all tier_status_ok (profiles w)" and "invariant_safe ev w"
  shows "list_all tier_status_ok (profiles (world_of (dispatch e ev w)))"
proof -
  consider (chk) "event_type ev = ''checkout.session.completed''"
    | (upd) "event_type ev = ''customer.subscription.updated''"
    | (del) "event_type ev = ''customer.subscription.deleted''"
    | (suc) "event_type ev = ''invoice.payment_succeeded''"
    | (fail) "event_type ev = ''invoice.payment_failed''"
    | (other) "event_type ev \<noteq> ''checkout.session.completed''"
        "event_type ev \<noteq> ''customer.subscription.updated''"
        "event_type ev \<noteq> ''customer.subscription.deleted''"
        "event_type ev \<noteq> ''invoice.payment_succeeded''"
        "event_type ev \<noteq> ''invoice.payment_failed''"
    by blast
  then show ?thesis
  proof cases
    case chk
    with assms show ?thesis
      by (simp add: dispatch_checkout invariant_safe_def checkout_keeps_invariant)
  next
    case upd
    show ?thesis
    proof (cases "subscription_update_status (data_object ev) = ''active''")
      case True
      with assms(1) upd show ?thesis
        by (simp add: dispatch_updated handleSubscriptionUpdate_def world_of_update
              list_all_update_eq_plain tier_status_ok_def)
    next
      case False
      with assms(2) upd
      have g: "list_all (\<lambda>r. subscription_tier r = Some ''lifetime'' \<longrightarrow>
                   \<not> eq_filter (stripe_subscription_id r) (obj_id (data_object ev))) (profiles w)"
        by (simp add: invariant_safe_def lifetime_rows_apart_def)
      have "\<And>f. list_all tier_status_ok
              (update_eq stripe_subscription_id (obj_id (data_object ev))
                 (\<lambda>r. r\<lparr>subscription_status := Some (subscription_update_status (data_object ev)),
                         last_payment_date := f\<rparr>) (profiles w))"
        by (rule list_all_update_eq [OF assms(1) g]) (auto simp: tier_status_ok_def)
      then show ?thesis
        using upd assms(1)
        by (simp add: dispatch_updated handleSubscriptionUpdate_def world_of_update)
    qed
  next
    case del
    with assms(1) show ?thesis
      by (simp add: dispatch_deleted handleSubscriptionDeleted_def world_of_update
            list_all_update_eq_plain tier_status_ok_def)
  next
    case suc
    with assms(1) show ?thesis
      by (simp add: dispatch_succeeded handlePaymentSucceeded_def world_of_update
            list_all_update_eq_plain tier_status_ok_def)
  next
    case fail
    with assms(2)
    have g: "list_all (\<lambda>r. subscription_tier r = Some ''lifetime'' \<longrightarrow>
                 \<not> eq_filter (stripe_subscription_id r) (subscription (data_object ev))) (profiles w)"
      by (simp add: invariant_safe_def lifetime_rows_apart_def)
    have "list_all tier_status_ok
            (update_eq stripe_subscription_id (subscription (data_object ev))
               (\<lambda>r. r\<lparr>subscription_status := Some ''past_due''\<rparr>) (profiles w))"
      by (rule list_all_update_eq [OF assms(1) g]) (auto simp: tier_status_ok_def)
    then show ?thesis
      using fail assms(1)
      by (simp add: dispatch_failed handlePaymentFailed_def world_of_update)
  next
    case other
    with assms(1) show ?thesis by (simp add: dispatch_def)
  qed
qed

lemma webhook_keeps_invariant:
  assumes "list_all tier_status_ok (profiles w)"
      and "case verify_event constructEvent cfg req of Inl msg \<Rightarrow> True | Inr ev \<Rightarrow> invariant_safe ev w"
  shows "list_all tier_status_ok (profiles (snd (webhook constructEvent cfg e req w)))"
proof (cases "verify_event constructEvent cfg req")
  case (Inl msg)
  with assms(1) show ?thesis by (simp add: webhook_def)
next
  case (Inr ev)
  with assms show ?thesis
    by (simp add: webhook_tables(1) [OF Inr] dispatch_keeps_invariant)
qed

lemma example_failed_verified:
  "verify_event example_constructEvent example_config (signed_request ''failed'')
   = Inr \<lparr>event_id = ''evt_8'', event_type = ''invoice.payment_failed'',
          data_object = example_invoice\<rparr>"
  by (simp add: verify_event_def example_constructEvent_def signed_request_def example_config_def
        example_events_def)

lemma example_failed_profiles:
  "update_throws e = None \<Longrightarrow>
   profiles (snd (webhook example_constructEvent example_config e (signed_request ''failed'') w))
     = update_eq stripe_subscription_id (Str ''sub_1'')
         (\<lambda>r. r\<lparr>subscription_status := Some ''past_due''\<rparr>) (profiles w)"
  by (simp add: webhook_tables(1) [OF example_failed_verified] dispatch_failed
        handlePaymentFailed_def world_of_update example_invoice_def empty_object_def)

lemma example_lifetime_profiles:
  "update_throws e = None \<Longrightarrow>
   profiles (snd (webhook example_constructEvent example_config e (signed_request ''lifetime'') w))
     = update_eq (\<lambda>r. Some (profile_id r)) (Str ''u1'')
         (checkout_updateData e example_lifetime_session (Str ''lifetime'')) (profiles w)"
  using checkout_profiles [OF example_lifetime_verified, of
          "\<lparr>meta_userId = Str ''u1'', meta_plan = Str ''lifetime''\<rparr>" e w]
  by (simp add: example_lifetime_session_def)

lemma example_weekly_profiles:
  "update_throws e = None \<Longrightarrow>
   profiles (snd (webhook example_constructEvent example_config e (signed_request ''weekly'') w))
     = update_eq (\<lambda>r. Some (profile_id r)) (Str ''u1'')
         (checkout_updateData e example_weekly_session (Str ''weekly'')) (profiles w)"
  using checkout_profiles [OF example_weekly_verified, of
          "\<lparr>meta_userId = Str ''u1'', meta_plan = Str ''weekly''\<rparr>" e w]
  by (simp add: example_weekly_session_def)

lemma example_update_throws: "update_throws example_env = None"
  by (simp add: example_env_def)

lemma example_weekly_lifetime_failed:
  "profiles (run example_constructEvent example_config
       [(example_env, signed_request ''weekly''), (example_env, signed_request ''lifetime''),
        (example_env, signed_request ''failed'')] example_world) =
     [\<lparr>profile_id = ''u1'', subscription_tier = Some ''lifetime'',
       subscription_status = Some ''past_due'', stripe_customer_id = Some ''cus_1'',
       stripe_subscription_id = Some ''sub_1'', subscription_start_date = Some 1000,
       trial_end_date = Some 604801001, subscription_end_date = None, last_payment_date = None\<rparr>,
      \<lparr>profile_id = ''u2'', subscription_tier = Some ''free'', subscription_status = Some ''none'',
       stripe_customer_id = None, stripe_subscription_id = None, subscription_start_date = None,
       trial_end_date = None, subscription_end_date = None, last_payment_date = None\<rparr>]"
  by (simp add: example_failed_profiles example_lifetime_profiles example_weekly_profiles
        example_update_throws example_profiles update_eq_def checkout_updateData_def Let_def
        example_weekly_session_def example_lifetime_session_def empty_object_def
        checkout_status_def setDate_plus_def example_env_def utc_host_def)

lemma example_lifetime_failed:
  "profiles (run example_constructEvent example_config
       [(example_env, signed_request ''lifetime''), (example_env, signed_request ''failed'')]
       example_world) =
     [\<lparr>profile_id = ''u1'', subscription_tier = Some ''lifetime'',
       subscription_status = Some ''active'', stripe_customer_id = Some ''cus_1'',
       stripe_subscription_id = None, subscription_start_date = Some 1000,
       trial_end_date = None, subscription_end_date = None, last_payment_date = None\<rparr>,
      \<lparr>profile_id = ''u2'', subscription_tier = Some ''free'', subscription_status = Some ''none'',
       stripe_customer_id = None, stripe_subscription_id = None, subscription_start_date = None,
       trial_end_date = None, subscription_end_date = None, last_payment_date = None\<rparr>]"
  by (simp add: example_failed_profiles example_lifetime_profiles
        example_update_throws example_profiles update_eq_def checkout_updateData_def Let_def
        example_lifetime_session_def empty_object_def
        checkout_status_def example_env_def)

lemma example_lifetime_failed_safe:
  "all_invariant_safe example_constructEvent example_config
       [(example_env, signed_request ''lifetime''), (example_env, signed_request ''failed'')]
       example_world"
  by (simp add: example_lifetime_verified example_failed_verified invariant_safe_def
        lifetime_rows_apart_def example_lifetime_profiles example_update_throws example_profiles
        update_eq_def checkout_updateData_def Let_def example_lifetime_session_def empty_object_def
        checkout_status_def example_invoice_def)

lemma redelivery_wins_base:
  assumes "verify_event constructEvent cfg req = Inr ev"
      and "event_type ev \<in> {''customer.subscription.updated'', ''customer.subscription.deleted'',
                            ''invoice.payment_succeeded'', ''invoice.payment_failed''}"
      and "update_throws e2 = None"
  shows "profiles (snd (webhook constructEvent cfg e2 req (snd (webhook constructEvent cfg e1 req w))))
           = profiles (snd (webhook constructEvent cfg e2 req w))
       \<and> (update_throws e1 = None \<longrightarrow>
            map subscription_status
               (profiles (snd (webhook constructEvent cfg e2 req (snd (webhook constructEvent cfg e1 req w)))))
              = map subscription_status (profiles (snd (webhook constructEvent cfg e1 req w)))
          \<and> map subscription_tier
               (profiles (snd (webhook constructEvent cfg e2 req (snd (webhook constructEvent cfg e1 req w)))))
              = map subscription_tier (profiles (snd (webhook constructEvent cfg e1 req w)))
          \<and> (date_first e1 = date_first e2 \<longrightarrow>
               profiles (snd (webhook constructEvent cfg e2 req (snd (webhook constructEvent cfg e1 req w))))
                 = profiles (snd (webhook constructEvent cfg e1 req w))))"
proof -
  note tables = webhook_tables(1) [OF assms(1)]
  consider (upd) "event_type ev = ''customer.subscription.updated''"
    | (del) "event_type ev = ''customer.subscription.deleted''"
    | (suc) "event_type ev = ''invoice.payment_succeeded''"
    | (fail) "event_type ev = ''invoice.payment_failed''"
    using assms(2) by auto
  then show ?thesis
  proof cases
    case upd
    let ?F = "\<lambda>e r. r\<lparr>subscription_status := Some (subscription_update_status (data_object ev)),
                       last_payment_date := Some (date_first e)\<rparr>"
    have "\<And>e w. profiles (world_of (dispatch e ev w)) =
            (if update_throws e = None
             then update_eq stripe_subscription_id (obj_id (data_object ev)) (?F e) (profiles w)
             else profiles w)"
      using upd by (simp add: dispatch_updated handleSubscriptionUpdate_def world_of_update)
    then show ?thesis
      using assms(3)
        redelivery_rows [where F = ?F and ?e1.0 = e1 and ?e2.0 = e2 and col = stripe_subscription_id
          and v = "obj_id (data_object ev)" and rows = "profiles w" and t = "update_throws e1 = None"]
      by (simp add: tables)
  next
    case del
    let ?F = "\<lambda>e r. r\<lparr>subscription_status := Some ''canceled'', subscription_tier := Some ''free'',
                       subscription_end_date := Some (date_first e)\<rparr>"
    have "\<And>e w. profiles (world_of (dispatch e ev w)) =
            (if update_throws e = None
             then update_eq stripe_subscription_id (obj_id (data_object ev)) (?F e) (profiles w)
             else profiles w)"
      using del by (simp add: dispatch_deleted handleSubscriptionDeleted_def world_of_update)
    then show ?thesis
      using assms(3)
        redelivery_rows [where F = ?F and ?e1.0 = e1 and ?e2.0 = e2 and col = stripe_subscription_id
          and v = "obj_id (data_object ev)" and rows = "profiles w" and t = "update_throws e1 = None"]
      by (simp add: tables)
  next
    case suc
    show ?thesis
    proof (cases "truthy (subscription (data_object ev))")
      case False
      then have "\<And>e w. dispatch e ev w = Inr w"
        using suc by (simp add: dispatch_succeeded handlePaymentSucceeded_def)
      then show ?thesis by (simp add: tables)
    next
      case True
      let ?F = "\<lambda>e r. r\<lparr>subscription_status := Some ''active'',
                         last_payment_date := Some (date_first e)\<rparr>"
      have "\<And>e w. profiles (world_of (dispatch e ev w)) =
              (if update_throws e = None
               then update_eq stripe_subscription_id (subscription (data_object ev)) (?F e) (profiles w)
               else profiles w)"
        using suc True by (simp add: dispatch_succeeded handlePaymentSucceeded_def world_of_update)
      then show ?thesis
        using assms(3)
          redelivery_rows [where F = ?F and ?e1.0 = e1 and ?e2.0 = e2 and col = stripe_subscription_id
            and v = "subscription (data_object ev)" and rows = "profiles w"
            and t = "update_throws e1 = None"]
        by (simp add: tables)
    qed
  next
    case fail
    let ?F = "\<lambda>(e::env) r. r\<lparr>subscription_status := Some ''past_due''\<rparr>"
    have "\<And>e w. profiles (world_of (dispatch e ev w)) =
            (if update_throws e = None
             then update_eq stripe_subscription_id (subscription (data_object ev)) (?F e) (profiles w)
             else profiles w)"
      using fail by (simp add: dispatch_failed handlePaymentFailed_def world_of_update)
    then show ?thesis
      using assms(3)
        redelivery_rows [where F = ?F and ?e1.0 = e1 and ?e2.0 = e2 and col = stripe_subscription_id
          and v = "subscription (data_object ev)" and rows = "profiles w"
          and t = "update_throws e1 = None"]
      by (simp add: tables)
  qed
qed

lemma webhook_updated_profiles:
  assumes "verify_event constructEvent cfg req = Inr ev"
      and "event_type ev = ''customer.subscription.updated''" and "update_throws e = None"
  shows "profiles (snd (webhook constructEvent cfg e req w)) =
           update_eq stripe_subscription_id (obj_id (data_object ev))
             (\<lambda>r. r\<lparr>subscription_status := Some (subscription_update_status (data_object ev)),
                     last_payment_date := Some (date_first e)\<rparr>) (profiles w)"
  using assms(2,3)
  by (simp add: webhook_tables(1) [OF assms(1)] dispatch_updated handleSubscriptionUpdate_def
        world_of_update)

lemma webhook_deleted_profiles:
  assumes "verify_event constructEvent cfg req = Inr ev"
      and "event_type ev = ''customer.subscription.deleted''" and "update_throws e = None"
  shows "profiles (snd (webhook constructEvent cfg e req w)) =
           update_eq stripe_subscription_id (obj_id (data_object ev))
             (\<lambda>r. r\<lparr>subscription_status := Some ''canceled'', subscription_tier := Some ''free'',
                     subscription_end_date := Some (date_first e)\<rparr>) (profiles w)"
  using assms(2,3)
  by (simp add: webhook_tables(1) [OF assms(1)] dispatch_deleted handleSubscriptionDeleted_def
        world_of_update)

lemma webhook_succeeded_profiles:
  assumes "verify_event constructEvent cfg req = Inr ev"
      and "event_type ev = ''invoice.payment_succeeded''" and "update_throws e = None"
      and "truthy (subscription (data_object ev))"
  shows "profiles (snd (webhook constructEvent cfg e req w)) =
           update_eq stripe_subscription_id (subscription (data_object ev))
             (\<lambda>r. r\<lparr>subscription_status := Some ''active'',
                     last_payment_date := Some (date_first e)\<rparr>) (profiles w)"
  using assms(2-4)
  by (simp add: webhook_tables(1) [OF assms(1)] dispatch_succeeded handlePaymentSucceeded_def
        world_of_update)

lemma webhook_succeeded_noop:
  assumes "verify_event constructEvent cfg req = Inr ev"
      and "event_type ev = ''invoice.payment_succeeded''"
      and "\<not> truthy (subscription (data_object ev))"
  shows "profiles (snd (webhook constructEvent cfg e req w)) = profiles w"
  using assms(2,3)
  by (simp add: webhook_tables(1) [OF assms(1)] dispatch_succeeded handlePaymentSucceeded_def)

lemma webhook_failed_profiles:
  assumes "verify_event constructEvent cfg req = Inr ev"
      and "event_type ev = ''invoice.payment_failed''" and "update_throws e = None"
  shows "profiles (snd (webhook constructEvent cfg e req w)) =
           update_eq stripe_subscription_id (subscription (data_object ev))
             (\<lambda>r. r\<lparr>subscription_status := Some ''past_due''\<rparr>) (profiles w)"
  using assms(2,3)
  by (simp add: webhook_tables(1) [OF assms(1)] dispatch_failed handlePaymentFailed_def
        world_of_update)

text \<open>
  Two deliveries of an update that stamps the clock leave the same table exactly when the
  clock readings agree or the filter selects no row.
\<close>

lemma redelivery_rows_iff:
  fixes F :: "env \<Rightarrow> profile \<Rightarrow> profile"
  assumes ts: "\<And>r. (F e2 r = F e1 r) = (date_first e1 = date_first e2)"
      and key: "\<And>r. col (F e1 r) = col r"
      and over: "\<And>r. F e2 (F e1 r) = F e2 r"
  shows "(update_eq col v (F e2) (update_eq col v (F e1) rows) = update_eq col v (F e1) rows)
           \<longleftrightarrow> (date_first e1 = date_first e2 \<or> \<not> list_ex (\<lambda>r. eq_filter (col r) v) rows)"
proof -
  have tw: "update_eq col v (F e2) (update_eq col v (F e1) rows) = update_eq col v (F e2) rows"
    by (rule update_eq_twice) (simp_all add: key over)
  have "(update_eq col v (F e2) rows = update_eq col v (F e1) rows)
           \<longleftrightarrow> (\<forall>r\<in>set rows. eq_filter (col r) v \<longrightarrow> F e2 r = F e1 r)"
    by (auto simp: update_eq_def)
  also have "\<dots> \<longleftrightarrow> (date_first e1 = date_first e2 \<or> \<not> list_ex (\<lambda>r. eq_filter (col r) v) rows)"
    by (auto simp: ts list_ex_iff)
  finally show ?thesis by (simp only: tw)
qed

lemma stamped_last_payment:
  "(r\<lparr>subscription_status := a, last_payment_date := Some x\<rparr>
      = r\<lparr>subscription_status := a, last_payment_date := Some y\<rparr>) = (x = y)"
  by (auto dest: arg_cong [where f = last_payment_date])

lemma stamped_end_date:
  "(r\<lparr>subscription_status := a, subscription_tier := b, subscription_end_date := Some x\<rparr>
      = r\<lparr>subscription_status := a, subscription_tier := b, subscription_end_date := Some y\<rparr>)
     = (x = y)"
  by (auto dest: arg_cong [where f = subscription_end_date])

section \<open>Rejection of unverified webhook requests\<close>

text \<open>
  C1. When the processor's verifier rejects the request (bad signature or malformed
  payload), both webhook routes answer 400, a client error, and issue no datastore call:
  the list of datastore calls and both tables are as before.
\<close>

theorem webhook_unverified_rejected:
  assumes "verify_event constructEvent cfg req = Inl msg"
  shows "status_code (fst (webhook constructEvent cfg e req w)) = 400
       \<and> datastore_calls (snd (webhook constructEvent cfg e req w)) = datastore_calls w
       \<and> profiles (snd (webhook constructEvent cfg e req w)) = profiles w
       \<and> payment_history (snd (webhook constructEvent cfg e req w)) = payment_history w
       \<and> status_code (fst (webhook_part_000 constructEvent cfg e req w)) = 400
       \<and> datastore_calls (snd (webhook_part_000 constructEvent cfg e req w)) = datastore_calls w
       \<and> profiles (snd (webhook_part_000 constructEvent cfg e req w)) = profiles w
       \<and> payment_history (snd (webhook_part_000 constructEvent cfg e req w)) = payment_history w"
  using assms by (simp add: webhook_def webhook_part_000_def)

theorem webhook_unverified_rejected_witness:
  "verify_event example_constructEvent example_config (forged_request ''lifetime'')
     = Inl ''No signatures found matching the expected signature for payload''
   \<and> status_code (fst (webhook example_constructEvent example_config example_env
         (forged_request ''lifetime'') example_world)) = 400
   \<and> datastore_calls (snd (webhook example_constructEvent example_config example_env
         (forged_request ''lifetime'') example_world)) = []
   \<and> status_code (fst (webhook_part_000 example_constructEvent example_config example_env
         (forged_request ''lifetime'') example_world)) = 400
   \<and> datastore_calls (snd (webhook_part_000 example_constructEvent example_config example_env
         (forged_request ''lifetime'') example_world)) = []"
proof -
  have h: "verify_event example_constructEvent example_config (forged_request ''lifetime'')
     = Inl ''No signatures found matching the expected signature for payload''"
    by (simp add: verify_event_def example_constructEvent_def forged_request_def example_config_def)
  from webhook_unverified_rejected [OF h, of example_env example_world] h
  show ?thesis by (simp add: example_world_def)
qed

section \<open>Checkout completed: the profile update\<close>

text \<open>
  C2 (amended). On a verified checkout-completed event whose profile update succeeds:
  server.js takes the user id and the plan from the session metadata and updates the row
  whose id is that user id (no row when the metadata names no user). On that row it sets
  the tier to the metadata plan, and infers nothing: an absent plan leaves the tier as it
  was. It sets the status to "trial" when the mode is "subscription" and a subscription id
  is present and to "active" otherwise, records the customer id, and, when a subscription
  id is present, stores it with a trial end 7 calendar days of the host's local time after
  the clock reading (604800000 ms later when the host's UTC offset is the same at both
  ends). The other rows keep these columns. Without a metadata object server.js throws,
  answers 500 and changes no row. The fallback is the second server file's: it updates the
  row named by \<open>client_reference_id\<close> (no row when that is empty), uses the metadata
  plan when there is one and otherwise "weekly" with a subscription id and "lifetime"
  without, always sets the status to "active", stores the subscription id or NULL, and
  writes no trial end.
\<close>

theorem checkout_completed_update:
  assumes "verify_event constructEvent cfg req = Inr ev"
      and "event_type ev = ''checkout.session.completed''"
      and "update_throws e = None"
  shows "(obj_metadata (data_object ev) = Some md \<longrightarrow>
            map subscription_tier (profiles (snd (webhook constructEvent cfg e req w)))
              = map (\<lambda>r. if meta_userId md = Str (profile_id r)
                          then (case meta_plan md of
                                  Str p \<Rightarrow> Some p
                                | Null \<Rightarrow> None
                                | Undefined \<Rightarrow> subscription_tier r)
                          else subscription_tier r) (profiles w)
          \<and> map subscription_status (profiles (snd (webhook constructEvent cfg e req w)))
              = map (\<lambda>r. if meta_userId md = Str (profile_id r)
                          then Some (if mode (data_object ev) = Str ''subscription''
                                        \<and> truthy (subscription (data_object ev))
                                     then ''trial'' else ''active'')
                          else subscription_status r) (profiles w)
          \<and> map stripe_customer_id (profiles (snd (webhook constructEvent cfg e req w)))
              = map (\<lambda>r. if meta_userId md = Str (profile_id r)
                          then set_col (customer (data_object ev)) (stripe_customer_id r)
                          else stripe_customer_id r) (profiles w)
          \<and> map stripe_subscription_id (profiles (snd (webhook constructEvent cfg e req w)))
              = map (\<lambda>r. if meta_userId md = Str (profile_id r)
                             \<and> truthy (subscription (data_object ev))
                          then to_col (subscription (data_object ev))
                          else stripe_subscription_id r) (profiles w)
          \<and> map trial_end_date (profiles (snd (webhook constructEvent cfg e req w)))
              = map (\<lambda>r. if meta_userId md = Str (profile_id r)
                             \<and> truthy (subscription (data_object ev))
                          then Some (date_second e + LocalTZA e (date_second e) True + 604800000
                                 - LocalTZA e (date_second e + LocalTZA e (date_second e) True
                                                + 604800000) False)
                          else trial_end_date r) (profiles w)
          \<and> (LocalTZA e (date_second e) True
               = LocalTZA e (date_second e + LocalTZA e (date_second e) True + 604800000) False
             \<longrightarrow>
               map trial_end_date (profiles (snd (webhook constructEvent cfg e req w)))
                 = map (\<lambda>r. if meta_userId md = Str (profile_id r)
                                \<and> truthy (subscription (data_object ev))
                             then Some (date_second e + 604800000)
                             else trial_end_date r) (profiles w)))
       \<and> (obj_metadata (data_object ev) = None \<longrightarrow>
            status_code (fst (webhook constructEvent cfg e req w)) = 500
          \<and> profiles (snd (webhook constructEvent cfg e req w)) = profiles w)
       \<and> (client_reference_id (data_object ev) = Str uid \<and> uid \<noteq> [] \<longrightarrow>
            map subscription_tier (profiles (snd (webhook_part_000 constructEvent cfg e req w)))
              = map (\<lambda>r. if profile_id r = uid
                          then Some (case obj_metadata (data_object ev) of
                                 None \<Rightarrow> (if truthy (subscription (data_object ev))
                                          then ''weekly'' else ''lifetime'')
                               | Some m \<Rightarrow>
                                   (case meta_plan m of
                                      Str q \<Rightarrow> if q = []
                                               then (if truthy (subscription (data_object ev))
                                                     then ''weekly'' else ''lifetime'')
                                               else q
                                    | Undefined \<Rightarrow> (if truthy (subscription (data_object ev))
                                                    then ''weekly'' else ''lifetime'')
                                    | Null \<Rightarrow> (if truthy (subscription (data_object ev))
                                               then ''weekly'' else ''lifetime'')))
                          else subscription_tier r) (profiles w)
          \<and> map subscription_status (profiles (snd (webhook_part_000 constructEvent cfg e req w)))
              = map (\<lambda>r. if profile_id r = uid then Some ''active'' else subscription_status r)
                  (profiles w)
          \<and> map stripe_customer_id (profiles (snd (webhook_part_000 constructEvent cfg e req w)))
              = map (\<lambda>r. if profile_id r = uid
                          then set_col (customer (data_object ev)) (stripe_customer_id r)
                          else stripe_customer_id r) (profiles w)
          \<and> map stripe_subscription_id (profiles (snd (webhook_part_000 constructEvent cfg e req w)))
              = map (\<lambda>r. if profile_id r = uid
                          then (if truthy (subscription (data_object ev))
                                then to_col (subscription (data_object ev)) else None)
                          else stripe_subscription_id r) (profiles w)
          \<and> map trial_end_date (profiles (snd (webhook_part_000 constructEvent cfg e req w)))
              = map trial_end_date (profiles w))
       \<and> (\<not> truthy (client_reference_id (data_object ev)) \<longrightarrow>
            profiles (snd (webhook_part_000 constructEvent cfg e req w)) = profiles w)"
proof (intro conjI impI)
  assume m: "obj_metadata (data_object ev) = Some md"
  have pr: "profiles (snd (webhook constructEvent cfg e req w)) =
           update_eq (\<lambda>r. Some (profile_id r)) (meta_userId md)
             (checkout_updateData e (data_object ev) (meta_plan md)) (profiles w)"
    by (rule checkout_profiles [OF assms(1,2) m assms(3)])
  show "map subscription_tier (profiles (snd (webhook constructEvent cfg e req w)))
              = map (\<lambda>r. if meta_userId md = Str (profile_id r)
                          then (case meta_plan md of
                                  Str p \<Rightarrow> Some p
                                | Null \<Rightarrow> None
                                | Undefined \<Rightarrow> subscription_tier r)
                          else subscription_tier r) (profiles w)"
    by (simp add: pr map_update_eq_id checkout_updateData_tier set_col_case)
  show "map subscription_status (profiles (snd (webhook constructEvent cfg e req w)))
              = map (\<lambda>r. if meta_userId md = Str (profile_id r)
                          then Some (if mode (data_object ev) = Str ''subscription''
                                        \<and> truthy (subscription (data_object ev))
                                     then ''trial'' else ''active'')
                          else subscription_status r) (profiles w)"
    by (simp add: pr map_update_eq_id checkout_updateData_status)
  show "map stripe_customer_id (profiles (snd (webhook constructEvent cfg e req w)))
              = map (\<lambda>r. if meta_userId md = Str (profile_id r)
                          then set_col (customer (data_object ev)) (stripe_customer_id r)
                          else stripe_customer_id r) (profiles w)"
    by (simp add: pr map_update_eq_id checkout_updateData_customer)
  show "map stripe_subscription_id (profiles (snd (webhook constructEvent cfg e req w)))
              = map (\<lambda>r. if meta_userId md = Str (profile_id r)
                             \<and> truthy (subscription (data_object ev))
                          then to_col (subscription (data_object ev))
                          else stripe_subscription_id r) (profiles w)"
    by (simp add: pr map_update_eq_id checkout_updateData_subscription)
  show "map trial_end_date (profiles (snd (webhook constructEvent cfg e req w)))
              = map (\<lambda>r. if meta_userId md = Str (profile_id r)
                             \<and> truthy (subscription (data_object ev))
                          then Some (date_second e + LocalTZA e (date_second e) True + 604800000
                                 - LocalTZA e (date_second e + LocalTZA e (date_second e) True
                                                + 604800000) False)
                          else trial_end_date r) (profiles w)"
    by (simp add: pr map_update_eq_id checkout_updateData_trial_end)
  show "map trial_end_date (profiles (snd (webhook constructEvent cfg e req w)))
                 = map (\<lambda>r. if meta_userId md = Str (profile_id r)
                                \<and> truthy (subscription (data_object ev))
                             then Some (date_second e + 604800000)
                             else trial_end_date r) (profiles w)"
    if "LocalTZA e (date_second e) True
               = LocalTZA e (date_second e + LocalTZA e (date_second e) True + 604800000) False"
    using that by (simp add: pr map_update_eq_id checkout_updateData_trial_end)
next
  assume n: "obj_metadata (data_object ev) = None"
  show "status_code (fst (webhook constructEvent cfg e req w)) = 500"
    by (simp add: checkout_no_metadata [OF assms(1,2) n])
  show "profiles (snd (webhook constructEvent cfg e req w)) = profiles w"
    by (simp add: checkout_no_metadata [OF assms(1,2) n])
next
  assume c: "client_reference_id (data_object ev) = Str uid \<and> uid \<noteq> []"
  then have t: "truthy (client_reference_id (data_object ev))" by simp
  have pr: "profiles (snd (webhook_part_000 constructEvent cfg e req w)) =
              update_eq (\<lambda>r. Some (profile_id r)) (Str uid)
                 (checkout_updateData_part_000 (data_object ev)
                    (checkout_plan_part_000 (data_object ev))) (profiles w)"
    using c by (simp add: webhook_part_000_checkout [OF assms(1,2) t assms(3)])
  show "map subscription_tier (profiles (snd (webhook_part_000 constructEvent cfg e req w)))
              = map (\<lambda>r. if profile_id r = uid
                          then Some (case obj_metadata (data_object ev) of
                                 None \<Rightarrow> (if truthy (subscription (data_object ev))
                                          then ''weekly'' else ''lifetime'')
                               | Some m \<Rightarrow>
                                   (case meta_plan m of
                                      Str q \<Rightarrow> if q = []
                                               then (if truthy (subscription (data_object ev))
                                                     then ''weekly'' else ''lifetime'')
                                               else q
                                    | Undefined \<Rightarrow> (if truthy (subscription (data_object ev))
                                                    then ''weekly'' else ''lifetime'')
                                    | Null \<Rightarrow> (if truthy (subscription (data_object ev))
                                               then ''weekly'' else ''lifetime'')))
                          else subscription_tier r) (profiles w)"
    by (simp add: pr map_update_eq checkout_updateData_part_000_def)
       (simp add: checkout_plan_part_000_Str)
  show "map subscription_status (profiles (snd (webhook_part_000 constructEvent cfg e req w)))
              = map (\<lambda>r. if profile_id r = uid then Some ''active'' else subscription_status r)
                  (profiles w)"
    by (simp add: pr map_update_eq checkout_updateData_part_000_def)
  show "map stripe_customer_id (profiles (snd (webhook_part_000 constructEvent cfg e req w)))
              = map (\<lambda>r. if profile_id r = uid
                          then set_col (customer (data_object ev)) (stripe_customer_id r)
                          else stripe_customer_id r) (profiles w)"
    by (simp add: pr map_update_eq checkout_updateData_part_000_def)
  show "map stripe_subscription_id (profiles (snd (webhook_part_000 constructEvent cfg e req w)))
              = map (\<lambda>r. if profile_id r = uid
                          then (if truthy (subscription (data_object ev))
                                then to_col (subscription (data_object ev)) else None)
                          else stripe_subscription_id r) (profiles w)"
    by (simp add: pr map_update_eq checkout_updateData_part_000_def js_or_Null)
  show "map trial_end_date (profiles (snd (webhook_part_000 constructEvent cfg e req w)))
              = map trial_end_date (profiles w)"
    by (simp add: pr map_update_eq checkout_updateData_part_000_def)
next
  assume "\<not> truthy (client_reference_id (data_object ev))"
  then show "profiles (snd (webhook_part_000 constructEvent cfg e req w)) = profiles w"
    using assms(1,2) by (simp add: webhook_part_000_def Let_def)
qed

text \<open>
  The theorem at the example weekly checkout of user u1, on a host on UTC and on a host
  whose clocks go back an hour within the week, and at the same checkout without metadata.
\<close>

theorem checkout_completed_update_witness:
  "map subscription_tier (profiles (snd (webhook example_constructEvent example_config
       example_env (signed_request ''weekly'') example_world))) = [Some ''weekly'', Some ''free'']
   \<and> map subscription_status (profiles (snd (webhook example_constructEvent example_config
       example_env (signed_request ''weekly'') example_world))) = [Some ''trial'', Some ''none'']
   \<and> map stripe_subscription_id (profiles (snd (webhook example_constructEvent example_config
       example_env (signed_request ''weekly'') example_world))) = [Some ''sub_1'', None]
   \<and> map trial_end_date (profiles (snd (webhook example_constructEvent example_config
       example_env (signed_request ''weekly'') example_world))) = [Some 604801001, None]
   \<and> map trial_end_date (profiles (snd (webhook example_constructEvent example_config
       example_dst_env (signed_request ''weekly'') example_world))) = [Some 608401001, None]
   \<and> map subscription_tier (profiles (snd (webhook_part_000 example_constructEvent example_config
       example_env (signed_request ''weekly'') example_world))) = [Some ''weekly'', Some ''free'']
   \<and> status_code (fst (webhook example_constructEvent example_config
       example_env (signed_request ''no_metadata'') example_world)) = 500
   \<and> map subscription_tier (profiles (snd (webhook_part_000 example_constructEvent example_config
       example_env (signed_request ''no_metadata'') example_world))) = [Some ''weekly'', Some ''free'']"
proof -
  let ?ev = "\<lparr>event_id = ''evt_2'', event_type = ''checkout.session.completed'',
          data_object = example_weekly_session\<rparr>"
  let ?ev' = "\<lparr>event_id = ''evt_3'', event_type = ''checkout.session.completed'',
          data_object = example_weekly_session\<lparr>obj_metadata := None\<rparr>\<rparr>"
  let ?md = "\<lparr>meta_userId = Str ''u1'', meta_plan = Str ''weekly''\<rparr>"
  have t: "event_type ?ev = ''checkout.session.completed''"
          "event_type ?ev' = ''checkout.session.completed''"
    by simp_all
  have u: "update_throws example_env = None"
    by (simp add: example_env_def)
  have f: "obj_metadata example_weekly_session = Some ?md"
      "mode example_weekly_session = Str ''subscription''"
      "subscription example_weekly_session = Str ''sub_1''"
      "customer example_weekly_session = Str ''cus_1''"
      "client_reference_id example_weekly_session = Str ''u1''"
    by (simp_all add: example_weekly_session_def empty_object_def)
  have d: "date_second example_env = 1001" "LocalTZA example_env = utc_host"
          "date_second example_dst_env = 1001" "LocalTZA example_dst_env = dst_host"
    by (simp_all add: example_env_def example_dst_env_def)
  from checkout_completed_update [OF example_weekly_verified t(1) u,
         where md = ?md and uid = "''u1''" and w = example_world]
       checkout_completed_update [OF example_weekly_verified t(1) example_dst_update_throws,
         where md = ?md and uid = "''u1''" and w = example_world]
       checkout_completed_update [OF example_no_metadata_verified t(2) u,
         where md = ?md and uid = "''u1''" and w = example_world]
  show ?thesis
    by (simp add: f d example_profiles to_col_def utc_host_def dst_host_def)
qed

text \<open>
  The claim as stated fails on both files. server.js infers no plan: without a metadata
  object it answers 500 and the tier stays "free"; with a metadata object that names no
  user and no plan it answers 200, changes no row and inserts a payment row without a
  user. With a subscription id the second server file sets the status "active", not
  "trial", and stores no trial end.
\<close>

theorem checkout_completed_counterexample:
  "status_code (fst (webhook example_constructEvent example_config
       example_env (signed_request ''no_metadata'') example_world)) = 500
   \<and> map subscription_tier (profiles (snd (webhook example_constructEvent example_config
       example_env (signed_request ''no_metadata'') example_world))) = [Some ''free'', Some ''free'']
   \<and> status_code (fst (webhook example_constructEvent example_config
       example_env (signed_request ''empty_metadata'') example_world)) = 200
   \<and> profiles (snd (webhook example_constructEvent example_config
       example_env (signed_request ''empty_metadata'') example_world)) = profiles example_world
   \<and> map user_id (payment_history (snd (webhook example_constructEvent example_config
       example_env (signed_request ''empty_metadata'') example_world))) = [None]
   \<and> map subscription_status (profiles (snd (webhook_part_000 example_constructEvent example_config
       example_env (signed_request ''weekly'') example_world))) = [Some ''active'', Some ''none'']
   \<and> map trial_end_date (profiles (snd (webhook_part_000 example_constructEvent example_config
       example_env (signed_request ''weekly'') example_world))) = [None, None]"
proof -
  have n: "obj_metadata (data_object \<lparr>event_id = ''evt_3'', event_type = ''checkout.session.completed'',
          data_object = example_weekly_session\<lparr>obj_metadata := None\<rparr>\<rparr>) = None"
    by simp
  have a: "status_code (fst (webhook example_constructEvent example_config
       example_env (signed_request ''no_metadata'') example_world)) = 500
   \<and> map subscription_tier (profiles (snd (webhook example_constructEvent example_config
       example_env (signed_request ''no_metadata'') example_world))) = [Some ''free'', Some ''free'']"
    by (simp add: checkout_no_metadata [OF example_no_metadata_verified _ n] example_profiles)
  have t: "truthy (client_reference_id (data_object \<lparr>event_id = ''evt_2'',
          event_type = ''checkout.session.completed'', data_object = example_weekly_session\<rparr>))"
    by (simp add: example_weekly_session_def empty_object_def)
  have u: "update_throws example_env = None" "insert_throws example_env = None"
    by (simp_all add: example_env_def)
  have b: "map subscription_status (profiles (snd (webhook_part_000 example_constructEvent example_config
       example_env (signed_request ''weekly'') example_world))) = [Some ''active'', Some ''none'']
   \<and> map trial_end_date (profiles (snd (webhook_part_000 example_constructEvent example_config
       example_env (signed_request ''weekly'') example_world))) = [None, None]"
    by (simp add: webhook_part_000_checkout [OF example_weekly_verified _ t u(1)]
          example_weekly_session_def empty_object_def map_update_eq
          checkout_updateData_part_000_def example_profiles)
  have c: "status_code (fst (webhook example_constructEvent example_config
       example_env (signed_request ''empty_metadata'') example_world)) = 200
   \<and> profiles (snd (webhook example_constructEvent example_config
       example_env (signed_request ''empty_metadata'') example_world)) = profiles example_world
   \<and> map user_id (payment_history (snd (webhook example_constructEvent example_config
       example_env (signed_request ''empty_metadata'') example_world))) = [None]"
    by (simp add: webhook_verified [OF example_empty_metadata_verified] dispatch_checkout
          handleCheckoutComplete_ok [where md = "\<lparr>meta_userId = Undefined, meta_plan = Undefined\<rparr>"
             and c = "''usd''"]
          example_weekly_session_def empty_object_def u update_eq_def checkout_payment_row_def
          to_col_def)
       (simp add: example_world_def)
  from a b c show ?thesis by simp
qed

section \<open>Checkout completed: a lifetime purchase\<close>

text \<open>
  C3 (amended). On a verified \<open>checkout.session.completed\<close> event whose metadata names the
  user and the plan "lifetime", with no subscription id and a currency, and with both
  datastore calls succeeding, server.js answers 200, sets the status of the user's row to
  "active" and its tier to "lifetime", leaves the other rows' status and tier alone, and
  appends exactly one payment row, of type "one_time". The second server file keeps no
  payment history: it inserts nothing, and sets status and tier on the row named by
  \<open>client_reference_id\<close>, whatever user the metadata names.
\<close>

theorem checkout_lifetime:
  assumes "verify_event constructEvent cfg req = Inr ev"
      and "event_type ev = ''checkout.session.completed''"
      and "obj_metadata (data_object ev) = Some md"
      and "meta_userId md = Str uid"
      and "meta_plan md = Str ''lifetime''"
      and "\<not> truthy (subscription (data_object ev))"
      and "currency (data_object ev) = Str c"
      and "update_throws e = None" and "insert_throws e = None"
  shows "fst (webhook constructEvent cfg e req w) = \<lparr>status_code = 200, payload = Json_received\<rparr>
       \<and> map subscription_status (profiles (snd (webhook constructEvent cfg e req w)))
           = map (\<lambda>r. if profile_id r = uid then Some ''active'' else subscription_status r) (profiles w)
       \<and> map subscription_tier (profiles (snd (webhook constructEvent cfg e req w)))
           = map (\<lambda>r. if profile_id r = uid then Some ''lifetime'' else subscription_tier r) (profiles w)
       \<and> length (payment_history (snd (webhook constructEvent cfg e req w)))
           = length (payment_history w) + 1
       \<and> butlast (payment_history (snd (webhook constructEvent cfg e req w))) = payment_history w
       \<and> payment_type (last (payment_history (snd (webhook constructEvent cfg e req w)))) = ''one_time''
       \<and> payment_history (snd (webhook_part_000 constructEvent cfg e req w)) = payment_history w
       \<and> (client_reference_id (data_object ev) = Str cid \<and> cid \<noteq> [] \<longrightarrow>
            map subscription_status (profiles (snd (webhook_part_000 constructEvent cfg e req w)))
              = map (\<lambda>r. if profile_id r = cid then Some ''active'' else subscription_status r) (profiles w)
          \<and> map subscription_tier (profiles (snd (webhook_part_000 constructEvent cfg e req w)))
              = map (\<lambda>r. if profile_id r = cid then Some ''lifetime'' else subscription_tier r) (profiles w))"
proof -
  have d: "webhook constructEvent cfg e req w =
               (\<lparr>status_code = 200, payload = Json_received\<rparr>,
                w\<lparr>datastore_calls := datastore_calls w @ [Update_profiles, Insert_payment_history],
                  profiles := update_eq (\<lambda>r. Some (profile_id r)) (meta_userId md)
                     (checkout_updateData e (data_object ev) (meta_plan md)) (profiles w),
                  payment_history := payment_history w @
                     [checkout_payment_row (data_object ev) (meta_userId md) (meta_plan md) c]\<rparr>)"
    using assms(2,3,7-9)
    by (simp add: webhook_verified [OF assms(1)] dispatch_checkout handleCheckoutComplete_ok)
  have a: "fst (webhook constructEvent cfg e req w) = \<lparr>status_code = 200, payload = Json_received\<rparr>
       \<and> map subscription_status (profiles (snd (webhook constructEvent cfg e req w)))
           = map (\<lambda>r. if profile_id r = uid then Some ''active'' else subscription_status r) (profiles w)
       \<and> map subscription_tier (profiles (snd (webhook constructEvent cfg e req w)))
           = map (\<lambda>r. if profile_id r = uid then Some ''lifetime'' else subscription_tier r) (profiles w)"
    using assms(4-6)
    by (simp add: d map_update_eq checkout_updateData_tier checkout_updateData_status)
  have b: "length (payment_history (snd (webhook constructEvent cfg e req w)))
           = length (payment_history w) + 1
       \<and> butlast (payment_history (snd (webhook constructEvent cfg e req w))) = payment_history w
       \<and> payment_type (last (payment_history (snd (webhook constructEvent cfg e req w)))) = ''one_time''"
    using assms(5) by (simp add: d checkout_payment_row_def)
  have p: "checkout_plan_part_000 (data_object ev) = Str ''lifetime''"
    using assms(3,5) by (simp add: checkout_plan_part_000_def js_or_def Let_def)
  have c: "client_reference_id (data_object ev) = Str cid \<and> cid \<noteq> [] \<longrightarrow>
            map subscription_status (profiles (snd (webhook_part_000 constructEvent cfg e req w)))
              = map (\<lambda>r. if profile_id r = cid then Some ''active'' else subscription_status r) (profiles w)
          \<and> map subscription_tier (profiles (snd (webhook_part_000 constructEvent cfg e req w)))
              = map (\<lambda>r. if profile_id r = cid then Some ''lifetime'' else subscription_tier r) (profiles w)"
    using assms(2,8)
    by (simp add: webhook_part_000_checkout [OF assms(1)] p map_update_eq
          checkout_updateData_part_000_def)
  from a b c show ?thesis
    by (simp only: payment_history_webhook_part_000 simp_thms)
qed

text \<open>The theorem at the example lifetime checkout of user u1.\<close>

theorem checkout_lifetime_witness:
  "map subscription_status (profiles (snd (webhook example_constructEvent example_config
       example_env (signed_request ''lifetime'') example_world))) = [Some ''active'', Some ''none'']
   \<and> map subscription_tier (profiles (snd (webhook example_constructEvent example_config
       example_env (signed_request ''lifetime'') example_world))) = [Some ''lifetime'', Some ''free'']
   \<and> length (payment_history (snd (webhook example_constructEvent example_config
       example_env (signed_request ''lifetime'') example_world))) = 1
   \<and> payment_type (last (payment_history (snd (webhook example_constructEvent example_config
       example_env (signed_request ''lifetime'') example_world)))) = ''one_time''
   \<and> map subscription_tier (profiles (snd (webhook_part_000 example_constructEvent example_config
       example_env (signed_request ''lifetime'') example_world))) = [Some ''lifetime'', Some ''free'']"
proof -
  let ?ev = "\<lparr>event_id = ''evt_1'', event_type = ''checkout.session.completed'',
          data_object = example_lifetime_session\<rparr>"
  let ?md = "\<lparr>meta_userId = Str ''u1'', meta_plan = Str ''lifetime''\<rparr>"
  have t: "event_type ?ev = ''checkout.session.completed''" by simp
  have m: "obj_metadata (data_object ?ev) = Some ?md"
    by (simp add: example_lifetime_session_def)
  have i: "meta_userId ?md = Str ''u1''" "meta_plan ?md = Str ''lifetime''"
    by simp_all
  have s: "\<not> truthy (subscription (data_object ?ev))"
    by (simp add: example_lifetime_session_def)
  have c: "currency (data_object ?ev) = Str ''usd''"
    by (simp add: example_lifetime_session_def)
  have u: "update_throws example_env = None" "insert_throws example_env = None"
    by (simp_all add: example_env_def)
  have r: "client_reference_id example_lifetime_session = Str ''u1''"
    by (simp add: example_lifetime_session_def)
  from checkout_lifetime [OF example_lifetime_verified t m i s c u,
         where w = example_world and cid = "''u1''"]
  show ?thesis
    by (simp add: example_profiles r) (simp add: example_world_def)
qed

text \<open>
  The claim as stated fails. The second server file inserts no payment row for the
  lifetime checkout. In server.js, a session without a currency makes the handler throw
  after the profile update: the tier is set, the answer is 500 and no payment row exists.
\<close>

theorem checkout_lifetime_counterexample:
  "payment_history (snd (webhook_part_000 example_constructEvent example_config
       example_env (signed_request ''lifetime'') example_world)) = []
   \<and> status_code (fst (webhook example_constructEvent example_config
       example_env (signed_request ''no_currency'') example_world)) = 500
   \<and> map subscription_tier (profiles (snd (webhook example_constructEvent example_config
       example_env (signed_request ''no_currency'') example_world))) = [Some ''lifetime'', Some ''free'']
   \<and> payment_history (snd (webhook example_constructEvent example_config
       example_env (signed_request ''no_currency'') example_world)) = []"
proof -
  have a: "payment_history (snd (webhook_part_000 example_constructEvent example_config
       example_env (signed_request ''lifetime'') example_world)) = []"
    by (simp add: payment_history_webhook_part_000 example_world_def)
  have d: "dispatch example_env \<lparr>event_id = ''evt_4'', event_type = ''checkout.session.completed'',
          data_object = example_lifetime_session\<lparr>currency := Null\<rparr>\<rparr> example_world =
        Inl (TypeError ''Cannot read properties of null (reading toUpperCase)'',
             example_world\<lparr>datastore_calls := [Update_profiles],
               profiles := update_eq (\<lambda>r. Some (profile_id r)) (Str ''u1'')
                 (checkout_updateData example_env (example_lifetime_session\<lparr>currency := Null\<rparr>)
                    (Str ''lifetime'')) (profiles example_world)\<rparr>)"
    by (simp add: dispatch_checkout handleCheckoutComplete_def example_lifetime_session_def
          supabase_update_ok example_env_def example_world_def)
  have b: "status_code (fst (webhook example_constructEvent example_config
       example_env (signed_request ''no_currency'') example_world)) = 500
   \<and> map subscription_tier (profiles (snd (webhook example_constructEvent example_config
       example_env (signed_request ''no_currency'') example_world))) = [Some ''lifetime'', Some ''free'']
   \<and> payment_history (snd (webhook example_constructEvent example_config
       example_env (signed_request ''no_currency'') example_world)) = []"
    by (simp add: webhook_verified [OF example_no_currency_verified] d map_update_eq
          checkout_updateData_tier example_profiles)
       (simp add: example_world_def)
  from a b show ?thesis by simp
qed

section \<open>Checkout completed: redelivery\<close>

text \<open>
  C4 (amended). server.js keeps no record of the events it has processed: each successfully
  processed delivery of a checkout-completed event appends one payment row, so two
  deliveries of the same event leave two equal rows for that checkout.
\<close>

theorem checkout_redelivery_duplicates:
  assumes "verify_event constructEvent cfg req = Inr ev"
      and "event_type ev = ''checkout.session.completed''"
      and "obj_metadata (data_object ev) = Some md"
      and "currency (data_object ev) = Str c"
      and "update_throws e1 = None" and "insert_throws e1 = None"
      and "update_throws e2 = None" and "insert_throws e2 = None"
  shows "payment_history (snd (webhook constructEvent cfg e2 req
                                 (snd (webhook constructEvent cfg e1 req w))))
           = payment_history w @
               [checkout_payment_row (data_object ev) (meta_userId md) (meta_plan md) c,
                checkout_payment_row (data_object ev) (meta_userId md) (meta_plan md) c]
       \<and> fst (webhook constructEvent cfg e2 req (snd (webhook constructEvent cfg e1 req w)))
           = \<lparr>status_code = 200, payload = Json_received\<rparr>"
proof -
  have d: "\<And>e w. update_throws e = None \<Longrightarrow> insert_throws e = None \<Longrightarrow>
             webhook constructEvent cfg e req w =
               (\<lparr>status_code = 200, payload = Json_received\<rparr>,
                w\<lparr>datastore_calls := datastore_calls w @ [Update_profiles, Insert_payment_history],
                  profiles := update_eq (\<lambda>r. Some (profile_id r)) (meta_userId md)
                     (checkout_updateData e (data_object ev) (meta_plan md)) (profiles w),
                  payment_history := payment_history w @
                     [checkout_payment_row (data_object ev) (meta_userId md) (meta_plan md) c]\<rparr>)"
    using assms(2-4)
    by (simp add: webhook_verified [OF assms(1)] dispatch_checkout handleCheckoutComplete_ok)
  show ?thesis
    by (simp add: d assms(5-8))
qed

text \<open>The theorem at the lifetime checkout delivered twice.\<close>

theorem checkout_redelivery_duplicates_witness:
  "map stripe_payment_id (payment_history (snd (webhook example_constructEvent example_config
       example_later_env (signed_request ''lifetime'')
       (snd (webhook example_constructEvent example_config example_env
              (signed_request ''lifetime'') example_world)))))
     = [Some ''pi_1'', Some ''pi_1'']"
proof -
  let ?ev = "\<lparr>event_id = ''evt_1'', event_type = ''checkout.session.completed'',
          data_object = example_lifetime_session\<rparr>"
  let ?md = "\<lparr>meta_userId = Str ''u1'', meta_plan = Str ''lifetime''\<rparr>"
  have t: "event_type ?ev = ''checkout.session.completed''" by simp
  have m: "obj_metadata (data_object ?ev) = Some ?md"
    by (simp add: example_lifetime_session_def)
  have c: "currency (data_object ?ev) = Str ''usd''"
    by (simp add: example_lifetime_session_def)
  have u: "update_throws example_env = None" "insert_throws example_env = None"
          "update_throws example_later_env = None" "insert_throws example_later_env = None"
    by (simp_all add: example_env_def example_later_env_def)
  from checkout_redelivery_duplicates [OF example_lifetime_verified t m c u, of example_world]
  show ?thesis
    by (simp add: example_world_def checkout_payment_row_def example_lifetime_session_def
          empty_object_def js_or_def to_col_def)
qed

text \<open>
  The claim as stated fails: after two deliveries of the same checkout-completed event the
  payment history holds two rows for the one checkout.
\<close>

theorem checkout_redelivery_counterexample:
  "length (payment_history (snd (webhook example_constructEvent example_config
       example_later_env (signed_request ''lifetime'')
       (snd (webhook example_constructEvent example_config example_env
              (signed_request ''lifetime'') example_world))))) = 2"
  by (simp add: webhook_verified [OF example_lifetime_verified] dispatch_checkout
        handleCheckoutComplete_ok [where md = "\<lparr>meta_userId = Str ''u1'', meta_plan = Str ''lifetime''\<rparr>"
           and c = "''usd''"]
        example_lifetime_session_def empty_object_def example_env_def example_later_env_def
        example_world_def)

section \<open>Redelivery of subscription and invoice events\<close>

text \<open>
  C5 (amended). For the subscription-updated, subscription-deleted, invoice-payment-succeeded
  and invoice-payment-failed events of server.js, no written field depends on the record's
  prior value. When the update of the redelivery succeeds, the profiles table after two
  deliveries of the same event is the table one delivery at the second processing time
  leaves (last write wins). When the update of the first delivery succeeded too: status
  and tier are the same after the redelivery as after the first delivery; a failed invoice
  payment writes the status only, so its redelivery leaves the table as the first delivery
  left it, whatever the clock; the other three events also stamp the handler's clock
  reading (last payment date, end date), so their redelivery leaves the table as the first
  delivery left it exactly when both deliveries read the same time or the event touches no
  row (no row holds the subscription id, or the paid invoice names no subscription).
\<close>

theorem redelivery_last_write_wins:
  assumes "verify_event constructEvent cfg req = Inr ev"
      and "event_type ev \<in> {''customer.subscription.updated'', ''customer.subscription.deleted'',
                            ''invoice.payment_succeeded'', ''invoice.payment_failed''}"
      and "update_throws e2 = None"
  shows "profiles (snd (webhook constructEvent cfg e2 req (snd (webhook constructEvent cfg e1 req w))))
           = profiles (snd (webhook constructEvent cfg e2 req w))
       \<and> (update_throws e1 = None \<longrightarrow>
            map subscription_status
               (profiles (snd (webhook constructEvent cfg e2 req (snd (webhook constructEvent cfg e1 req w)))))
              = map subscription_status (profiles (snd (webhook constructEvent cfg e1 req w)))
          \<and> map subscription_tier
               (profiles (snd (webhook constructEvent cfg e2 req (snd (webhook constructEvent cfg e1 req w)))))
              = map subscription_tier (profiles (snd (webhook constructEvent cfg e1 req w)))
          \<and> (date_first e1 = date_first e2 \<longrightarrow>
               profiles (snd (webhook constructEvent cfg e2 req (snd (webhook constructEvent cfg e1 req w))))
                 = profiles (snd (webhook constructEvent cfg e1 req w)))
          \<and> (event_type ev = ''invoice.payment_failed'' \<longrightarrow>
               profiles (snd (webhook constructEvent cfg e2 req (snd (webhook constructEvent cfg e1 req w))))
                 = profiles (snd (webhook constructEvent cfg e1 req w)))
          \<and> (event_type ev = ''customer.subscription.updated''
                \<or> event_type ev = ''customer.subscription.deleted'' \<longrightarrow>
               (profiles (snd (webhook constructEvent cfg e2 req (snd (webhook constructEvent cfg e1 req w))))
                  = profiles (snd (webhook constructEvent cfg e1 req w)))
               = (date_first e1 = date_first e2
                  \<or> \<not> list_ex (\<lambda>r. eq_filter (stripe_subscription_id r) (obj_id (data_object ev)))
                         (profiles w)))
          \<and> (event_type ev = ''invoice.payment_succeeded'' \<longrightarrow>
               (profiles (snd (webhook constructEvent cfg e2 req (snd (webhook constructEvent cfg e1 req w))))
                  = profiles (snd (webhook constructEvent cfg e1 req w)))
               = (date_first e1 = date_first e2
                  \<or> \<not> truthy (subscription (data_object ev))
                  \<or> \<not> list_ex (\<lambda>r. eq_filter (stripe_subscription_id r)
                                     (subscription (data_object ev))) (profiles w))))"
proof -
  note base = redelivery_wins_base [OF assms, of e1 w]
  have fail: "profiles (snd (webhook constructEvent cfg e2 req (snd (webhook constructEvent cfg e1 req w)))) = profiles (snd (webhook constructEvent cfg e1 req w))"
    if "update_throws e1 = None" and t: "event_type ev = ''invoice.payment_failed''"
    using base that
    by (simp add: webhook_failed_profiles [OF assms(1) t assms(3)]
          webhook_failed_profiles [OF assms(1) t that(1)])
  have upd: "(profiles (snd (webhook constructEvent cfg e2 req (snd (webhook constructEvent cfg e1 req w)))) = profiles (snd (webhook constructEvent cfg e1 req w)))
               = (date_first e1 = date_first e2
                  \<or> \<not> list_ex (\<lambda>r. eq_filter (stripe_subscription_id r) (obj_id (data_object ev)))
                         (profiles w))"
    if u: "update_throws e1 = None" and t: "event_type ev = ''customer.subscription.updated''"
    unfolding webhook_updated_profiles [OF assms(1) t assms(3)]
      webhook_updated_profiles [OF assms(1) t u]
    by (rule redelivery_rows_iff) (auto simp: stamped_last_payment)
  have del: "(profiles (snd (webhook constructEvent cfg e2 req (snd (webhook constructEvent cfg e1 req w)))) = profiles (snd (webhook constructEvent cfg e1 req w)))
               = (date_first e1 = date_first e2
                  \<or> \<not> list_ex (\<lambda>r. eq_filter (stripe_subscription_id r) (obj_id (data_object ev)))
                         (profiles w))"
    if u: "update_throws e1 = None" and t: "event_type ev = ''customer.subscription.deleted''"
    unfolding webhook_deleted_profiles [OF assms(1) t assms(3)]
      webhook_deleted_profiles [OF assms(1) t u]
    by (rule redelivery_rows_iff) (auto simp: stamped_end_date)
  have suc: "(profiles (snd (webhook constructEvent cfg e2 req (snd (webhook constructEvent cfg e1 req w)))) = profiles (snd (webhook constructEvent cfg e1 req w)))
               = (date_first e1 = date_first e2
                  \<or> \<not> truthy (subscription (data_object ev))
                  \<or> \<not> list_ex (\<lambda>r. eq_filter (stripe_subscription_id r)
                                     (subscription (data_object ev))) (profiles w))"
    if u: "update_throws e1 = None" and t: "event_type ev = ''invoice.payment_succeeded''"
  proof (cases "truthy (subscription (data_object ev))")
    case False
    then show ?thesis
      by (simp add: webhook_succeeded_noop [OF assms(1) t])
  next
    case True
    have "(profiles (snd (webhook constructEvent cfg e2 req (snd (webhook constructEvent cfg e1 req w)))) = profiles (snd (webhook constructEvent cfg e1 req w)))
               = (date_first e1 = date_first e2
                  \<or> \<not> list_ex (\<lambda>r. eq_filter (stripe_subscription_id r)
                                     (subscription (data_object ev))) (profiles w))"
      unfolding webhook_succeeded_profiles [OF assms(1) t assms(3) True]
        webhook_succeeded_profiles [OF assms(1) t u True]
      by (rule redelivery_rows_iff) (auto simp: stamped_last_payment)
    with True show ?thesis by simp
  qed
  from base fail upd del suc show ?thesis
    by blast
qed

text \<open>
  The theorem at a subscription update delivered at time 1000 and again at time 5000, which
  changes the last payment date, and at a failed invoice payment delivered at the same two
  times, which changes nothing.
\<close>

theorem redelivery_last_write_wins_witness:
  "map subscription_status (profiles (snd (webhook example_constructEvent example_config
       example_later_env (signed_request ''updated'')
       (snd (webhook example_constructEvent example_config example_env
              (signed_request ''updated'') example_subscribed_world)))))
     = [Some ''past_due'', Some ''active'']
   \<and> map last_payment_date (profiles (snd (webhook example_constructEvent example_config
       example_later_env (signed_request ''updated'')
       (snd (webhook example_constructEvent example_config example_env
              (signed_request ''updated'') example_subscribed_world)))))
     = [Some 5000, None]
   \<and> profiles (snd (webhook example_constructEvent example_config
       example_later_env (signed_request ''failed'')
       (snd (webhook example_constructEvent example_config example_env
              (signed_request ''failed'') example_subscribed_world))))
     = profiles (snd (webhook example_constructEvent example_config example_env
              (signed_request ''failed'') example_subscribed_world))"
proof -
  let ?ev = "\<lparr>event_id = ''evt_5'', event_type = ''customer.subscription.updated'',
          data_object = example_subscription\<rparr>"
  let ?ev' = "\<lparr>event_id = ''evt_8'', event_type = ''invoice.payment_failed'',
          data_object = example_invoice\<rparr>"
  have t: "event_type ?ev \<in> {''customer.subscription.updated'', ''customer.subscription.deleted'',
                            ''invoice.payment_succeeded'', ''invoice.payment_failed''}"
          "event_type ?ev' \<in> {''customer.subscription.updated'', ''customer.subscription.deleted'',
                            ''invoice.payment_succeeded'', ''invoice.payment_failed''}"
    by simp_all
  have u: "update_throws example_later_env = None"
    by (simp add: example_later_env_def example_env_def)
  have f: "event_type ?ev' = ''invoice.payment_failed''"
    by simp
  have a: "map subscription_status (profiles (snd (webhook example_constructEvent example_config
       example_later_env (signed_request ''updated'')
       (snd (webhook example_constructEvent example_config example_env
              (signed_request ''updated'') example_subscribed_world)))))
     = [Some ''past_due'', Some ''active'']
   \<and> map last_payment_date (profiles (snd (webhook example_constructEvent example_config
       example_later_env (signed_request ''updated'')
       (snd (webhook example_constructEvent example_config example_env
              (signed_request ''updated'') example_subscribed_world)))))
     = [Some 5000, None]"
    using redelivery_last_write_wins [OF example_updated_verified t(1) u, of example_env
         example_subscribed_world]
    by (simp add: example_updated_later)
  have b: "profiles (snd (webhook example_constructEvent example_config
       example_later_env (signed_request ''failed'')
       (snd (webhook example_constructEvent example_config example_env
              (signed_request ''failed'') example_subscribed_world))))
     = profiles (snd (webhook example_constructEvent example_config example_env
              (signed_request ''failed'') example_subscribed_world))"
    using redelivery_last_write_wins [OF example_failed_verified t(2) u, of example_env
         example_subscribed_world] example_update_throws f
    by blast
  from a b show ?thesis by simp
qed

text \<open>
  The claim as stated fails: the handler writes the reading of its own clock, so the
  record after a redelivery at a later time differs from the record after the first
  delivery.
\<close>

theorem redelivery_idempotent_counterexample:
  "map last_payment_date (profiles (snd (webhook example_constructEvent example_config
       example_later_env (signed_request ''updated'')
       (snd (webhook example_constructEvent example_config example_env
              (signed_request ''updated'') example_subscribed_world)))))
     = [Some 5000, None]
   \<and> map last_payment_date (profiles (snd (webhook example_constructEvent example_config example_env
              (signed_request ''updated'') example_subscribed_world)))
     = [Some 1000, None]"
  by (simp add: example_updated_twice example_updated_once)

section \<open>Datastore failure during reconciliation\<close>

text \<open>
  C6 (amended). In server.js, when the datastore call of a verified event throws (the
  profile update of any of the five handled events, or the payment insert of a checkout
  completion), the route logs the error and answers 500. In the second server file the
  exception of the profile update is caught inside the route, logged, and the request is
  acknowledged with 200; no row has changed.
\<close>

theorem webhook_datastore_failure:
  assumes "verify_event constructEvent cfg req = Inr ev"
  shows "((update_throws e = Some m \<and>
             ((event_type ev = ''checkout.session.completed'' \<and> obj_metadata (data_object ev) \<noteq> None)
              \<or> event_type ev = ''customer.subscription.updated''
              \<or> event_type ev = ''customer.subscription.deleted''
              \<or> (event_type ev = ''invoice.payment_succeeded'' \<and> truthy (subscription (data_object ev)))
              \<or> event_type ev = ''invoice.payment_failed''))
         \<or> (update_throws e = None \<and> insert_throws e = Some m
              \<and> event_type ev = ''checkout.session.completed''
              \<and> obj_metadata (data_object ev) \<noteq> None
              \<and> currency (data_object ev) = Str c)
          \<longrightarrow>
            fst (webhook constructEvent cfg e req w) =
              \<lparr>status_code = 500, payload = Send ''Webhook handler failed''\<rparr>
          \<and> console (snd (webhook constructEvent cfg e req w)) =
              console w @ [Console_error_object ''Webhook error:'' (DatastoreError m)])
       \<and> (update_throws e = Some m \<and> event_type ev = ''checkout.session.completed''
            \<and> truthy (client_reference_id (data_object ev)) \<longrightarrow>
          fst (webhook_part_000 constructEvent cfg e req w) =
            \<lparr>status_code = 200, payload = Json_received\<rparr>
          \<and> console (snd (webhook_part_000 constructEvent cfg e req w)) =
            console w @ [Console_error ''Supabase update error in webhook:'' m]
          \<and> profiles (snd (webhook_part_000 constructEvent cfg e req w)) = profiles w)"
proof -
  have s: "fst (webhook constructEvent cfg e req w) =
             \<lparr>status_code = 500, payload = Send ''Webhook handler failed''\<rparr>
         \<and> console (snd (webhook constructEvent cfg e req w)) =
             console w @ [Console_error_object ''Webhook error:'' (DatastoreError m)]"
    if h: "(update_throws e = Some m \<and>
             ((event_type ev = ''checkout.session.completed'' \<and> obj_metadata (data_object ev) \<noteq> None)
              \<or> event_type ev = ''customer.subscription.updated''
              \<or> event_type ev = ''customer.subscription.deleted''
              \<or> (event_type ev = ''invoice.payment_succeeded'' \<and> truthy (subscription (data_object ev)))
              \<or> event_type ev = ''invoice.payment_failed''))
         \<or> (update_throws e = None \<and> insert_throws e = Some m
              \<and> event_type ev = ''checkout.session.completed''
              \<and> obj_metadata (data_object ev) \<noteq> None
              \<and> currency (data_object ev) = Str c)"
  proof -
  have "\<exists>w1. dispatch e ev w = Inl (DatastoreError m, w1) \<and> console w1 = console w"
    using h
  proof
    assume "update_throws e = Some m \<and>
             ((event_type ev = ''checkout.session.completed'' \<and> obj_metadata (data_object ev) \<noteq> None)
              \<or> event_type ev = ''customer.subscription.updated''
              \<or> event_type ev = ''customer.subscription.deleted''
              \<or> (event_type ev = ''invoice.payment_succeeded'' \<and> truthy (subscription (data_object ev)))
              \<or> event_type ev = ''invoice.payment_failed'')"
    then show ?thesis by (simp add: dispatch_update_throws)
  next
    assume a: "update_throws e = None \<and> insert_throws e = Some m
              \<and> event_type ev = ''checkout.session.completed''
              \<and> obj_metadata (data_object ev) \<noteq> None
              \<and> currency (data_object ev) = Str c"
    then obtain md where "obj_metadata (data_object ev) = Some md" by auto
    with a show ?thesis by (simp add: dispatch_insert_throws)
  qed
  then obtain w1 where d: "dispatch e ev w = Inl (DatastoreError m, w1)" and c: "console w1 = console w"
    by blast
  show ?thesis
    by (simp add: webhook_verified [OF assms(1)] d c)
  qed
  have p: "update_throws e = Some m \<and> event_type ev = ''checkout.session.completed''
            \<and> truthy (client_reference_id (data_object ev)) \<longrightarrow>
          fst (webhook_part_000 constructEvent cfg e req w) =
            \<lparr>status_code = 200, payload = Json_received\<rparr>
          \<and> console (snd (webhook_part_000 constructEvent cfg e req w)) =
            console w @ [Console_error ''Supabase update error in webhook:'' m]
          \<and> profiles (snd (webhook_part_000 constructEvent cfg e req w)) = profiles w"
    using assms(1)
    by (simp add: webhook_part_000_def Let_def supabase_update_throws checkout_plan_part_000_def
          js_or_def)
  from s p show ?thesis by blast
qed

text \<open>
  The theorem at a lifetime checkout whose profile update throws, and at one whose payment
  insert throws.
\<close>

theorem webhook_datastore_failure_witness:
  "fst (webhook example_constructEvent example_config example_failing_env
          (signed_request ''lifetime'') example_world) =
     \<lparr>status_code = 500, payload = Send ''Webhook handler failed''\<rparr>
   \<and> console (snd (webhook example_constructEvent example_config example_failing_env
          (signed_request ''lifetime'') example_world)) =
       [Console_error_object ''Webhook error:'' (DatastoreError ''fetch failed'')]
   \<and> console (snd (webhook_part_000 example_constructEvent example_config example_failing_env
          (signed_request ''lifetime'') example_world)) =
       [Console_error ''Supabase update error in webhook:'' ''fetch failed'']
   \<and> fst (webhook example_constructEvent example_config example_insert_failing_env
          (signed_request ''lifetime'') example_world) =
     \<lparr>status_code = 500, payload = Send ''Webhook handler failed''\<rparr>"
proof -
  let ?ev = "\<lparr>event_id = ''evt_1'', event_type = ''checkout.session.completed'',
          data_object = example_lifetime_session\<rparr>"
  have u: "update_throws example_failing_env = Some ''fetch failed''"
    by (simp add: example_failing_env_def)
  have i: "update_throws example_insert_failing_env = None"
          "insert_throws example_insert_failing_env = Some ''fetch failed''"
    by (simp_all add: example_insert_failing_env_def example_env_def)
  have t: "event_type ?ev = ''checkout.session.completed''"
    by simp
  have md: "obj_metadata (data_object ?ev) \<noteq> None"
    by (simp add: example_lifetime_session_def)
  have c: "currency (data_object ?ev) = Str ''usd''"
    by (simp add: example_lifetime_session_def)
  have r: "truthy (client_reference_id (data_object ?ev))"
    by (simp add: example_lifetime_session_def)
  have h: "(update_throws example_failing_env = Some ''fetch failed'' \<and>
             ((event_type ?ev = ''checkout.session.completed'' \<and> obj_metadata (data_object ?ev) \<noteq> None)
              \<or> event_type ?ev = ''customer.subscription.updated''
              \<or> event_type ?ev = ''customer.subscription.deleted''
              \<or> (event_type ?ev = ''invoice.payment_succeeded'' \<and> truthy (subscription (data_object ?ev)))
              \<or> event_type ?ev = ''invoice.payment_failed''))
         \<or> (update_throws example_failing_env = None \<and> insert_throws example_failing_env = Some ''fetch failed''
              \<and> event_type ?ev = ''checkout.session.completed''
              \<and> obj_metadata (data_object ?ev) \<noteq> None
              \<and> currency (data_object ?ev) = Str ''usd'')"
    using u t md by blast
  have h2: "(update_throws example_insert_failing_env = Some ''fetch failed'' \<and>
             ((event_type ?ev = ''checkout.session.completed'' \<and> obj_metadata (data_object ?ev) \<noteq> None)
              \<or> event_type ?ev = ''customer.subscription.updated''
              \<or> event_type ?ev = ''customer.subscription.deleted''
              \<or> (event_type ?ev = ''invoice.payment_succeeded'' \<and> truthy (subscription (data_object ?ev)))
              \<or> event_type ?ev = ''invoice.payment_failed''))
         \<or> (update_throws example_insert_failing_env = None
              \<and> insert_throws example_insert_failing_env = Some ''fetch failed''
              \<and> event_type ?ev = ''checkout.session.completed''
              \<and> obj_metadata (data_object ?ev) \<noteq> None
              \<and> currency (data_object ?ev) = Str ''usd'')"
    using i t md c by blast
  from webhook_datastore_failure [OF example_lifetime_verified,
         where e = example_failing_env and m = "''fetch failed''" and c = "''usd''"
           and w = example_world]
       webhook_datastore_failure [OF example_lifetime_verified,
         where e = example_insert_failing_env and m = "''fetch failed''" and c = "''usd''"
           and w = example_world] h h2 u t r
  have "fst (webhook example_constructEvent example_config example_failing_env
          (signed_request ''lifetime'') example_world) =
     \<lparr>status_code = 500, payload = Send ''Webhook handler failed''\<rparr>
   \<and> console (snd (webhook example_constructEvent example_config example_failing_env
          (signed_request ''lifetime'') example_world)) =
       console example_world @ [Console_error_object ''Webhook error:'' (DatastoreError ''fetch failed'')]
   \<and> console (snd (webhook_part_000 example_constructEvent example_config example_failing_env
          (signed_request ''lifetime'') example_world)) =
       console example_world @ [Console_error ''Supabase update error in webhook:'' ''fetch failed'']
   \<and> fst (webhook example_constructEvent example_config example_insert_failing_env
          (signed_request ''lifetime'') example_world) =
     \<lparr>status_code = 500, payload = Send ''Webhook handler failed''\<rparr>"
    by blast
  then show ?thesis by (simp add: example_world_def)
qed

text \<open>
  The claim as stated fails on the second server file: the failed update is acknowledged
  with a success response.
\<close>

theorem webhook_datastore_failure_counterexample:
  "fst (webhook_part_000 example_constructEvent example_config example_failing_env
          (signed_request ''lifetime'') example_world) =
     \<lparr>status_code = 200, payload = Json_received\<rparr>
   \<and> profiles (snd (webhook_part_000 example_constructEvent example_config example_failing_env
          (signed_request ''lifetime'') example_world)) = profiles example_world"
  by (simp add: webhook_part_000_def example_lifetime_verified example_lifetime_session_def
        empty_object_def checkout_plan_part_000_def js_or_def Let_def supabase_update_throws
        example_failing_env_def)

section \<open>Checkout session creation: unknown plans\<close>

lemma prices_lookup_unknown:
  assumes "to_property_key p = Some k" and "k \<noteq> ''weekly''" and "k \<noteq> ''lifetime''"
      and "k \<notin> set object_prototype_keys"
  shows "prices_lookup cfg p = Inr (Price Undefined)"
  using assms by (simp add: prices_lookup_def)

text \<open>
  C7 (amended). In the second server file, a request whose plan, turned into a property
  key as \<open>prices[plan]\<close> turns it, is neither "weekly" nor "lifetime" nor the name of a
  member inherited from \<open>Object.prototype\<close>, is answered 400 ("Unknown plan", or "Missing
  plan, userId, or email" when one of the three fields is falsy) and the world is
  unchanged: no call to the processor. server.js has no validation: for such a request it
  sends the session request to the processor with an undefined price and answers 400 only
  when the processor throws.
\<close>

theorem checkout_unknown_plan:
  assumes "body req = Some b"
      and "to_property_key (plan b) = Some k"
      and "k \<noteq> ''weekly''" and "k \<noteq> ''lifetime''"
      and "k \<notin> set object_prototype_keys"
  shows "fst (create_checkout_session_part_000 create cfg req w) =
           \<lparr>status_code = 400,
            payload = Json_error (if truthy_json (plan b) \<and> truthy_json (userId b)
                                     \<and> truthy_json (email b)
                                  then ''Unknown plan'' else ''Missing plan, userId, or email'')\<rparr>
       \<and> snd (create_checkout_session_part_000 create cfg req w) = w
       \<and> length (processor_calls (snd (create_checkout_session create cfg req w)))
            = length (processor_calls w) + 1
       \<and> line_item_price (last (processor_calls (snd (create_checkout_session create cfg req w))))
            = Price Undefined
       \<and> status_code (fst (create_checkout_session create cfg req w))
            = (case create (checkout_sessionConfig cfg b (Price Undefined)) of
                 Inl m \<Rightarrow> 400 | Inr url \<Rightarrow> 200)"
proof -
  have p: "prices_lookup cfg (plan b) = Inr (Price Undefined)"
    using assms(2-5) by (rule prices_lookup_unknown)
  have c: "line_item_price (checkout_sessionConfig cfg b (Price Undefined)) = Price Undefined"
    by (simp add: checkout_sessionConfig_def Let_def)
  show ?thesis
    using assms(1) p c
    by (simp add: create_checkout_session_part_000_def create_checkout_session_def Let_def
             split: sum.splits)
qed

text \<open>The theorem at the plan "monthly", and at the plan 5.\<close>

theorem checkout_unknown_plan_witness:
  "fst (create_checkout_session_part_000 example_sessions_create example_config
          (example_body (JStr ''monthly'') JUndefined) example_world) =
     \<lparr>status_code = 400, payload = Json_error ''Unknown plan''\<rparr>
   \<and> snd (create_checkout_session_part_000 example_sessions_create example_config
          (example_body (JStr ''monthly'') JUndefined) example_world) = example_world
   \<and> status_code (fst (create_checkout_session example_sessions_create example_config
          (example_body (JStr ''monthly'') JUndefined) example_world)) = 400
   \<and> fst (create_checkout_session_part_000 example_sessions_create example_config
          (example_body (JNum ''5'') JUndefined) example_world) =
     \<lparr>status_code = 400, payload = Json_error ''Unknown plan''\<rparr>"
proof -
  let ?b = "\<lparr>plan = JStr ''monthly'', userId = JStr ''u1'', email = JStr ''u1@example.com'',
             skipTrial = JUndefined\<rparr>"
  let ?b' = "\<lparr>plan = JNum ''5'', userId = JStr ''u1'', email = JStr ''u1@example.com'',
             skipTrial = JUndefined\<rparr>"
  have b: "body (example_body (JStr ''monthly'') JUndefined) = Some ?b"
          "body (example_body (JNum ''5'') JUndefined) = Some ?b'"
    by (simp_all add: example_body_def)
  have k: "to_property_key (plan ?b) = Some ''monthly''" "to_property_key (plan ?b') = Some ''5''"
    by simp_all
  have n: "''monthly'' \<noteq> ''weekly''" "''monthly'' \<noteq> ''lifetime''"
          "''monthly'' \<notin> set object_prototype_keys"
          "''5'' \<noteq> ''weekly''" "''5'' \<noteq> ''lifetime''" "''5'' \<notin> set object_prototype_keys"
    by (simp_all add: object_prototype_keys_def)
  have s: "example_sessions_create (checkout_sessionConfig example_config ?b (Price Undefined))
             = Inl ''Missing required param: line_items[0][price].''"
    by (simp add: example_sessions_create_def checkout_sessionConfig_def)
  from checkout_unknown_plan [where create = example_sessions_create and cfg = example_config
         and w = example_world, OF b(1) k(1) n(1-3)]
       checkout_unknown_plan [where create = example_sessions_create and cfg = example_config
         and w = example_world, OF b(2) k(2) n(4-6)] s
  show ?thesis by simp
qed

text \<open>
  The claim as stated fails: for the plan "monthly" server.js issues a processor call; for
  the plan "toString" the second server file issues one too, with the inherited member as
  the price; and for the plan ["weekly"], an array and not the string "weekly", both files
  issue one with the weekly price, since the array's property key is "weekly".
\<close>

theorem checkout_unknown_plan_counterexample:
  "map line_item_price (processor_calls (snd (create_checkout_session example_sessions_create
       example_config (example_body (JStr ''monthly'') JUndefined) example_world)))
     = [Price Undefined]
   \<and> map line_item_price (processor_calls (snd (create_checkout_session_part_000
       example_sessions_create example_config (example_body (JStr ''toString'') JUndefined)
       example_world)))
     = [Inherited ''toString'']
   \<and> map line_item_price (processor_calls (snd (create_checkout_session_part_000
       example_sessions_create example_config (example_body (JArr [JStr ''weekly'']) JUndefined)
       example_world)))
     = [Price (Str ''price_w'')]
   \<and> map line_item_price (processor_calls (snd (create_checkout_session
       example_sessions_create example_config (example_body (JArr [JStr ''weekly'']) JUndefined)
       example_world)))
     = [Price (Str ''price_w'')]"
  by (simp add: create_checkout_session_def create_checkout_session_part_000_def example_body_def
        example_world_def example_sessions_create_def checkout_sessionConfig_def
        checkout_sessionConfig_part_000_def prices_lookup_def object_prototype_keys_def
        example_config_def)

section \<open>Checkout session creation: the trial period\<close>

lemma strict_eq_json_JStr: "strict_eq_json v lit = (v = JStr lit)"
  by (cases v) simp_all

lemma subscription_data_sessionConfig:
  "subscription_data (checkout_sessionConfig cfg b price)
     = (if plan b = JStr ''weekly'' \<and> \<not> truthy_json (skipTrial b)
        then Some \<lparr>trial_period_days = 7\<rparr> else None)"
  by (simp add: checkout_sessionConfig_def Let_def strict_eq_json_JStr)

lemma subscription_data_sessionConfig_part_000:
  "subscription_data (checkout_sessionConfig_part_000 cfg b p)
     = (if plan b = JStr ''weekly'' then Some \<lparr>trial_period_days = 7\<rparr> else None)"
  by (simp add: checkout_sessionConfig_part_000_def strict_eq_json_JStr)

lemma processor_calls_create_checkout_session:
  "body req = Some b \<Longrightarrow> prices_lookup cfg (plan b) = Inr price \<Longrightarrow>
   processor_calls (snd (create_checkout_session create cfg req w))
     = processor_calls w @ [checkout_sessionConfig cfg b price]"
  by (cases "create (checkout_sessionConfig cfg b price)")
     (simp_all add: create_checkout_session_def Let_def)

lemma processor_calls_create_checkout_session_throws:
  "body req = Some b \<Longrightarrow> to_property_key (plan b) = None \<Longrightarrow>
   processor_calls (snd (create_checkout_session create cfg req w)) = processor_calls w"
  by (simp add: create_checkout_session_def prices_lookup_def)

lemma processor_calls_create_checkout_session_part_000:
  "body req = Some b \<Longrightarrow> truthy_json (plan b) \<Longrightarrow> truthy_json (userId b) \<Longrightarrow>
   truthy_json (email b) \<Longrightarrow> prices_lookup cfg (plan b) = Inr price \<Longrightarrow> truthy_price price \<Longrightarrow>
   processor_calls (snd (create_checkout_session_part_000 create cfg req w))
     = processor_calls w @ [checkout_sessionConfig_part_000 cfg b price]"
  by (cases "create (checkout_sessionConfig_part_000 cfg b price)")
     (simp_all add: create_checkout_session_part_000_def Let_def)

lemma prices_lookup_Inr:
  "to_property_key p \<noteq> None \<Longrightarrow> \<exists>price. prices_lookup cfg p = Inr price"
  by (auto simp: prices_lookup_def)

text \<open>
  C8 (amended). For a request whose plan can be turned into a property key, server.js
  sends the processor one session request, with a 7-day trial exactly when the plan is
  "weekly" and \<open>skipTrial\<close> is falsy (absent, \<open>null\<close>, \<open>false\<close>, 0 or the empty string);
  when the plan cannot be turned into a key it sends none. The second server file does not
  read \<open>skipTrial\<close>: a request that passes its validation carries a 7-day trial exactly
  when the plan is "weekly".
\<close>

theorem checkout_trial:
  assumes "body req = Some b"
  shows "(to_property_key (plan b) \<noteq> None \<longrightarrow>
            length (processor_calls (snd (create_checkout_session create cfg req w)))
              = length (processor_calls w) + 1
          \<and> subscription_data (last (processor_calls (snd (create_checkout_session create cfg req w))))
              = (if plan b = JStr ''weekly'' \<and> \<not> truthy_json (skipTrial b)
                 then Some \<lparr>trial_period_days = 7\<rparr> else None))
       \<and> (to_property_key (plan b) = None \<longrightarrow>
            processor_calls (snd (create_checkout_session create cfg req w)) = processor_calls w)
       \<and> (truthy_json (plan b) \<and> truthy_json (userId b) \<and> truthy_json (email b)
            \<and> (case prices_lookup cfg (plan b) of
                  Inl err \<Rightarrow> False | Inr price \<Rightarrow> truthy_price price) \<longrightarrow>
          length (processor_calls (snd (create_checkout_session_part_000 create cfg req w)))
            = length (processor_calls w) + 1
          \<and> subscription_data
              (last (processor_calls (snd (create_checkout_session_part_000 create cfg req w))))
            = (if plan b = JStr ''weekly'' then Some \<lparr>trial_period_days = 7\<rparr> else None))"
proof (intro conjI impI)
  assume "to_property_key (plan b) \<noteq> None"
  then obtain price where p: "prices_lookup cfg (plan b) = Inr price"
    using prices_lookup_Inr by blast
  note a = processor_calls_create_checkout_session [OF assms p]
  show "length (processor_calls (snd (create_checkout_session create cfg req w)))
              = length (processor_calls w) + 1"
    by (simp add: a)
  show "subscription_data (last (processor_calls (snd (create_checkout_session create cfg req w))))
              = (if plan b = JStr ''weekly'' \<and> \<not> truthy_json (skipTrial b)
                 then Some \<lparr>trial_period_days = 7\<rparr> else None)"
    by (simp add: a subscription_data_sessionConfig)
next
  assume "to_property_key (plan b) = None"
  then show "processor_calls (snd (create_checkout_session create cfg req w)) = processor_calls w"
    by (rule processor_calls_create_checkout_session_throws [OF assms])
next
  assume v: "truthy_json (plan b) \<and> truthy_json (userId b) \<and> truthy_json (email b)
            \<and> (case prices_lookup cfg (plan b) of
                  Inl err \<Rightarrow> False | Inr price \<Rightarrow> truthy_price price)"
  then obtain price where p: "prices_lookup cfg (plan b) = Inr price" and t: "truthy_price price"
    by (cases "prices_lookup cfg (plan b)") auto
  from v have f: "truthy_json (plan b)" "truthy_json (userId b)" "truthy_json (email b)"
    by simp_all
  note a = processor_calls_create_checkout_session_part_000 [OF assms f p t]
  show "length (processor_calls (snd (create_checkout_session_part_000 create cfg req w)))
            = length (processor_calls w) + 1"
    by (simp add: a)
  show "subscription_data
              (last (processor_calls (snd (create_checkout_session_part_000 create cfg req w))))
            = (if plan b = JStr ''weekly'' then Some \<lparr>trial_period_days = 7\<rparr> else None)"
    by (simp add: a subscription_data_sessionConfig_part_000)
qed

text \<open>The theorem at a weekly checkout with \<open>skipTrial\<close> true.\<close>

theorem checkout_trial_witness:
  "subscription_data (last (processor_calls (snd (create_checkout_session example_sessions_create
       example_config (example_body (JStr ''weekly'') (JBool True)) example_world)))) = None
   \<and> subscription_data (last (processor_calls (snd (create_checkout_session_part_000
       example_sessions_create example_config (example_body (JStr ''weekly'') (JBool True))
       example_world))))
       = Some \<lparr>trial_period_days = 7\<rparr>"
proof -
  let ?b = "\<lparr>plan = JStr ''weekly'', userId = JStr ''u1'', email = JStr ''u1@example.com'',
             skipTrial = JBool True\<rparr>"
  have b: "body (example_body (JStr ''weekly'') (JBool True)) = Some ?b"
    by (simp add: example_body_def)
  have p: "case prices_lookup example_config (plan ?b) of
             Inl err \<Rightarrow> False | Inr price \<Rightarrow> truthy_price price"
    by (simp add: prices_lookup_def example_config_def)
  from checkout_trial [where create = example_sessions_create and cfg = example_config
         and w = example_world, OF b] p
  show ?thesis by simp
qed

text \<open>
  The claim as stated fails on the second server file: a weekly checkout with
  \<open>skipTrial\<close> true still attaches the trial.
\<close>

theorem checkout_trial_counterexample:
  "map subscription_data (processor_calls (snd (create_checkout_session_part_000
       example_sessions_create example_config (example_body (JStr ''weekly'') (JBool True))
       example_world)))
     = [Some \<lparr>trial_period_days = 7\<rparr>]"
  by (simp add: create_checkout_session_part_000_def example_body_def
        example_world_def example_sessions_create_def example_config_def
        checkout_sessionConfig_part_000_def prices_lookup_def)

section \<open>Subscription deleted\<close>

text \<open>
  C9 (amended). On a verified \<open>customer.subscription.deleted\<close> event for subscription id
  \<open>S\<close>, when the datastore update succeeds, server.js answers 200 and leaves the
  profiles table as before except that every row whose \<open>stripe_subscription_id\<close> is \<open>S\<close>
  has status "canceled", tier "free" and the current time as its end date; every other row
  is unchanged. The second server file handles checkout completion only and leaves every
  row unchanged on this event.
\<close>

theorem subscription_deleted_frame:
  assumes "verify_event constructEvent cfg req = Inr ev"
      and "event_type ev = ''customer.subscription.deleted''"
      and "obj_id (data_object ev) = Str S"
      and "update_throws e = None"
  shows "fst (webhook constructEvent cfg e req w) = \<lparr>status_code = 200, payload = Json_received\<rparr>
       \<and> profiles (snd (webhook constructEvent cfg e req w)) =
           map (\<lambda>r. if stripe_subscription_id r = Some S
                     then r\<lparr>subscription_status := Some ''canceled'',
                            subscription_tier := Some ''free'',
                            subscription_end_date := Some (date_first e)\<rparr>
                     else r) (profiles w)
       \<and> profiles (snd (webhook_part_000 constructEvent cfg e req w)) = profiles w"
proof -
  have d: "dispatch e ev w =
             Inr (w\<lparr>datastore_calls := datastore_calls w @ [Update_profiles],
                    profiles := update_eq stripe_subscription_id (Str S)
                       (\<lambda>r. r\<lparr>subscription_status := Some ''canceled'',
                               subscription_tier := Some ''free'',
                               subscription_end_date := Some (date_first e)\<rparr>) (profiles w)\<rparr>)"
    using assms(2-4) by (simp add: dispatch_deleted handleSubscriptionDeleted_def supabase_update_ok)
  have p: "snd (webhook_part_000 constructEvent cfg e req w) = w"
    using assms(1,2) by (simp add: webhook_part_000_def)
  show ?thesis
    by (simp add: webhook_verified [OF assms(1)] d p update_eq_def eq_filter_Str)
qed

lemma example_deleted_verified:
  "verify_event example_constructEvent example_config (signed_request ''deleted'')
   = Inr \<lparr>event_id = ''evt_6'', event_type = ''customer.subscription.deleted'',
          data_object = example_subscription\<rparr>"
  by (simp add: verify_event_def example_constructEvent_def signed_request_def example_config_def example_events_def)

text \<open>The theorem on two subscribers, the first with the deleted subscription.\<close>

theorem subscription_deleted_frame_witness:
  "map subscription_status (profiles (snd (webhook example_constructEvent example_config example_env
       (signed_request ''deleted'') example_subscribed_world))) = [Some ''canceled'', Some ''active'']
   \<and> map subscription_tier (profiles (snd (webhook example_constructEvent example_config example_env
       (signed_request ''deleted'') example_subscribed_world))) = [Some ''free'', Some ''weekly'']
   \<and> map subscription_end_date (profiles (snd (webhook example_constructEvent example_config
       example_env (signed_request ''deleted'') example_subscribed_world))) = [Some 1000, None]"
proof -
  have t: "event_type \<lparr>event_id = ''evt_6'', event_type = ''customer.subscription.deleted'',
          data_object = example_subscription\<rparr> = ''customer.subscription.deleted''"
    by simp
  have i: "obj_id (data_object \<lparr>event_id = ''evt_6'', event_type = ''customer.subscription.deleted'',
          data_object = example_subscription\<rparr>) = Str ''sub_1''"
    by (simp add: example_subscription_def empty_object_def)
  have u: "update_throws example_env = None"
    by (simp add: example_env_def)
  from subscription_deleted_frame [OF example_deleted_verified t i u, of example_subscribed_world]
  show ?thesis
    by (simp add: example_subscribed_world_def example_world_def example_profile_def example_env_def)
qed

text \<open>
  The claim as stated fails on the second server file: the row with the deleted
  subscription keeps its status.
\<close>

theorem subscription_deleted_frame_counterexample:
  "map subscription_status (profiles (snd (webhook_part_000 example_constructEvent example_config
       example_env (signed_request ''deleted'') example_subscribed_world)))
     = [Some ''trial'', Some ''active'']"
  by (simp add: webhook_part_000_def example_deleted_verified example_subscribed_world_def
        example_world_def example_profile_def)

section \<open>The tier and status invariant under webhook deliveries\<close>

text \<open>
  C10 (amended). Starting from a profiles table in which every row with tier "lifetime"
  has status "active" or "canceled", the same holds after any sequence of webhook
  deliveries to server.js in which (a) every checkout completion that yields the status
  "trial" (mode "subscription" with a subscription id) names a plan other than "lifetime",
  and (b) every subscription update to a status other than "active", and every failed
  invoice payment, carries a subscription id held by no row whose tier is then "lifetime".
\<close>

theorem lifetime_invariant_preserved:
  assumes "list_all tier_status_ok (profiles w)"
      and "all_invariant_safe constructEvent cfg deliveries w"
  shows "list_all tier_status_ok (profiles (run constructEvent cfg deliveries w))"
  using assms
proof (induction deliveries arbitrary: w)
  case Nil
  then show ?case by simp
next
  case (Cons d deliveries)
  obtain e req where d: "d = (e, req)" by (cases d)
  from Cons.prems have "list_all tier_status_ok (profiles (snd (webhook constructEvent cfg e req w)))"
    by (simp add: d webhook_keeps_invariant)
  moreover from Cons.prems
  have "all_invariant_safe constructEvent cfg deliveries (snd (webhook constructEvent cfg e req w))"
    by (simp add: d)
  ultimately show ?case
    by (simp add: d Cons.IH)
qed


text \<open>
  The theorem at a lifetime checkout followed by a failed invoice payment for a
  subscription the lifetime row does not hold.
\<close>

theorem lifetime_invariant_preserved_witness:
  "list_all tier_status_ok (profiles example_world)
   \<and> all_invariant_safe example_constructEvent example_config
       [(example_env, signed_request ''lifetime''), (example_env, signed_request ''failed'')]
       example_world
   \<and> list_all tier_status_ok (profiles (run example_constructEvent example_config
       [(example_env, signed_request ''lifetime''), (example_env, signed_request ''failed'')]
       example_world))
   \<and> map subscription_tier (profiles (run example_constructEvent example_config
       [(example_env, signed_request ''lifetime''), (example_env, signed_request ''failed'')]
       example_world)) = [Some ''lifetime'', Some ''free'']"
proof -
  have i: "list_all tier_status_ok (profiles example_world)"
    by (simp add: example_profiles tier_status_ok_def)
  have r: "list_all tier_status_ok (profiles (run example_constructEvent example_config
       [(example_env, signed_request ''lifetime''), (example_env, signed_request ''failed'')]
       example_world))"
    by (rule lifetime_invariant_preserved [OF i example_lifetime_failed_safe])
  have m: "map subscription_tier (profiles (run example_constructEvent example_config
       [(example_env, signed_request ''lifetime''), (example_env, signed_request ''failed'')]
       example_world)) = [Some ''lifetime'', Some ''free'']"
    unfolding example_lifetime_failed by simp
  from i example_lifetime_failed_safe r m show ?thesis
    by (intro conjI)
qed

text \<open>
  The claim as stated fails: a weekly checkout, a lifetime checkout by the same user (which
  leaves the weekly subscription id on the row) and a failed invoice payment for that
  subscription take a table that satisfies the invariant to a row with tier "lifetime" and
  status "past_due".
\<close>

theorem lifetime_invariant_counterexample:
  "list_all tier_status_ok (profiles example_world)
   \<and> map subscription_tier (profiles (run example_constructEvent example_config
       [(example_env, signed_request ''weekly''), (example_env, signed_request ''lifetime''),
        (example_env, signed_request ''failed'')] example_world)) = [Some ''lifetime'', Some ''free'']
   \<and> map subscription_status (profiles (run example_constructEvent example_config
       [(example_env, signed_request ''weekly''), (example_env, signed_request ''lifetime''),
        (example_env, signed_request ''failed'')] example_world)) = [Some ''past_due'', Some ''none'']
   \<and> \<not> list_all tier_status_ok (profiles (run example_constructEvent example_config
       [(example_env, signed_request ''weekly''), (example_env, signed_request ''lifetime''),
        (example_env, signed_request ''failed'')] example_world))"
  unfolding example_weekly_lifetime_failed by (simp add: example_profiles tier_status_ok_def)

end
